theory Spec2Isabelle
  imports Complex_Main
begin

section \<open>Prehistoric Leap: a shallow embedding of \<open>src/main.py\<close>\<close>

text \<open>
  The game keeps all of its state in one \<open>Game\<close> object and a handful of entity objects.
  Each class becomes a record, each method a function from the old object to the new one.
  Python \<open>int\<close> is modelled by \<open>int\<close>. Python \<open>float\<close> is modelled by \<open>real\<close>: arithmetic
  is exact, so rounding, infinities and NaN are outside the model. An uncaught exception
  ends the program; a function that can raise returns \<open>py_error + 'a\<close> with the exception
  on the left.

  Drawing, fonts, images and sounds only paint or play; they are left out, except where a
  painting routine can raise.
\<close>

subsection \<open>Module constants (lines 35-70)\<close>

definition SCREEN_WIDTH :: int where "SCREEN_WIDTH = 800"
definition SCREEN_HEIGHT :: int where "SCREEN_HEIGHT = 600"
definition PLAYER_W :: int where "PLAYER_W = 70"
definition PLAYER_H :: int where "PLAYER_H = 70"
definition PLAYER_X :: int where "PLAYER_X = 150"
definition ENEMY_W :: int where "ENEMY_W = 70"
definition ENEMY_H :: int where "ENEMY_H = 70"
definition COIN_W :: int where "COIN_W = 32"
definition COIN_H :: int where "COIN_H = 32"
definition WALL_WIDTH :: int where "WALL_WIDTH = 72"
definition WALL_TIP :: int where "WALL_TIP = 22"

subsection \<open>Library behaviour the program relies on\<close>

datatype py_error =
  IndexError | ValueError | OSError | UnicodeDecodeError | AttributeError | TypeError

text \<open>\<open>int(f)\<close> on a float truncates towards zero.\<close>

definition py_int :: "real \<Rightarrow> int" where
  "py_int r = (if 0 \<le> r then \<lfloor>r\<rfloor> else \<lceil>r\<rceil>)"

text \<open>
  \<open>random.randint(a, b)\<close> raises \<open>ValueError\<close> on an empty range and otherwise returns some
  integer of \<open>[a, b]\<close>. The generator itself is not modelled: the third argument is the raw
  draw, folded into the range, so every integer of the range is the result of some draw.
  \<open>random.uniform(a, b)\<close> is \<open>a + (b - a) * random.random()\<close>; its argument \<open>u\<close> is the value
  of \<open>random.random()\<close>.
\<close>

definition randint :: "int \<Rightarrow> int \<Rightarrow> int \<Rightarrow> py_error + int" where
  "randint a b r = (if b < a then Inl ValueError else Inr (a + r mod (b - a + 1)))"

definition uniform :: "real \<Rightarrow> real \<Rightarrow> real \<Rightarrow> real" where
  "uniform a b u = a + (b - a) * u"

text \<open>
  A \<open>pygame.Rect\<close> is \<open>(x, y, w, h)\<close> over integers. \<open>colliderect\<close> follows pygame 2: a
  rectangle of zero width or height collides with nothing, and otherwise the two spans must
  overlap on both axes (the \<open>min\<close>/\<open>max\<close> normalise negative sizes). \<open>collidepoint\<close> is
  containment in the half-open rectangle.
\<close>

type_synonym rect = "int \<times> int \<times> int \<times> int"

fun colliderect :: "rect \<Rightarrow> rect \<Rightarrow> bool" where
  "colliderect (ax, ay, aw, ah) (bx, by, bw, bh) =
     (if aw = 0 \<or> ah = 0 \<or> bw = 0 \<or> bh = 0 then False
      else min ax (ax + aw) < max bx (bx + bw) \<and>
           min ay (ay + ah) < max by (by + bh) \<and>
           max ax (ax + aw) > min bx (bx + bw) \<and>
           max ay (ay + ah) > min by (by + bh))"

fun collidepoint :: "rect \<Rightarrow> int \<times> int \<Rightarrow> bool" where
  "collidepoint (x, y, w, h) (px, py) = (x \<le> px \<and> px < x + w \<and> y \<le> py \<and> py < y + h)"

subsection \<open>Rock pillar surfaces (lines 136-193)\<close>

text \<open>
  \<open>create_rock_surface\<close> only paints, but while painting the cracks it calls
  \<open>random.randint(8, width - 8)\<close> and \<open>random.randint(body_y0 + 12, body_y1 - 12)\<close> at least
  once, with \<open>body_y1 = body_y0 + height\<close>. Both raise on an empty range; every other range
  it draws from is non-empty whenever these two are. The surface itself is opaque.
\<close>

definition create_rock_surface :: "int \<Rightarrow> int \<Rightarrow> py_error + unit" where
  "create_rock_surface width height =
     (if width - 8 < 8 \<or> height - 12 < 12 then Inl ValueError else Inr ())"

subsection \<open>Player (lines 200-265)\<close>

record player =
  p_x :: int
  p_y :: real
  p_vel :: real
  p_alive :: bool
  p_bob_t :: real
  p_gravity :: real
  p_flap_power :: real
  p_max_fall :: real

definition Player_init :: player where
  "Player_init =
     \<lparr> p_x = PLAYER_X,
       p_y = real_of_int (SCREEN_HEIGHT div 2 - PLAYER_H div 2),
       p_vel = 0, p_alive = True, p_bob_t = 0,
       p_gravity = 3 / 10, p_flap_power = - 6, p_max_fall = 7 \<rparr>"

definition Player_rect :: "player \<Rightarrow> rect" where
  "Player_rect p = (p_x p + 8, py_int (p_y p) + 8, PLAYER_W - 16, PLAYER_H - 16)"

definition Player_flap :: "player \<Rightarrow> player" where
  "Player_flap p = (if p_alive p then p\<lparr>p_vel := p_flap_power p\<rparr> else p)"

text \<open>
  \<open>Player.update(gravity, grace)\<close>, statement by statement: the optional gravity override, the
  velocity step, the position step, the ceiling clamp, the floor check.
\<close>

definition Player_update :: "real option \<Rightarrow> bool \<Rightarrow> player \<Rightarrow> player" where
  "Player_update gravity grace p =
     (let p1 = (case gravity of Some g \<Rightarrow> p\<lparr>p_gravity := g\<rparr> | None \<Rightarrow> p);
          p2 = (if \<not> grace
                then p1\<lparr>p_vel := min (p_vel p1 + p_gravity p1) (p_max_fall p1)\<rparr>
                else p1\<lparr>p_vel := 0\<rparr>);
          p3 = p2\<lparr>p_y := p_y p2 + p_vel p2\<rparr>;
          p4 = (if p_y p3 < 0 then p3\<lparr>p_y := 0, p_vel := 0\<rparr> else p3)
      in if p_y p4 > real_of_int (SCREEN_HEIGHT - PLAYER_H)
         then p4\<lparr>p_y := real_of_int (SCREEN_HEIGHT - PLAYER_H), p_alive := False\<rparr>
         else p4)"

definition Player_bob :: "player \<Rightarrow> player" where
  "Player_bob p =
     (let t = p_bob_t p + 4 / 100
      in p\<lparr>p_bob_t := t,
            p_y := real_of_int (SCREEN_HEIGHT div 2 - PLAYER_H div 2) + sin t * 18\<rparr>)"

definition Player_reset :: "player \<Rightarrow> player" where
  "Player_reset p =
     p\<lparr>p_y := real_of_int (SCREEN_HEIGHT div 2 - PLAYER_H div 2),
       p_vel := 0, p_alive := True, p_bob_t := 0\<rparr>"

subsection \<open>WallPair (lines 268-319)\<close>

record wallpair =
  w_x :: real
  w_speed :: real
  w_gap_size :: int
  w_scored :: bool
  w_gap_y :: int
  w_top_h :: int
  w_bot_start :: int

text \<open>
  The constructor. \<open>gap_y\<close> is the optional argument (\<open>None\<close>, like \<open>0\<close>, is falsy and makes the
  constructor draw the gap centre); \<open>r\<close> is the raw draw for that \<open>randint\<close>. The two surfaces
  are built before \<open>_top_h\<close> and \<open>_bot_start\<close> are stored, so a raise there leaves no object.
\<close>

definition WallPair_init :: "int \<Rightarrow> int \<Rightarrow> real \<Rightarrow> int option \<Rightarrow> int \<Rightarrow> py_error + wallpair" where
  "WallPair_init x gap_size speed gap_y r =
     (let margin = 70;
          min_gy = margin + gap_size div 2;
          max_gy = SCREEN_HEIGHT - margin - gap_size div 2;
          drawn = (case gap_y of
                     None \<Rightarrow> randint min_gy max_gy r
                   | Some v \<Rightarrow> if v \<noteq> 0 then Inr v else randint min_gy max_gy r)
      in case drawn of
           Inl e \<Rightarrow> Inl e
         | Inr gy \<Rightarrow>
             (let top_h = gy - gap_size div 2;
                  bot_h = SCREEN_HEIGHT - (gy + gap_size div 2)
              in case create_rock_surface WALL_WIDTH (max 10 top_h) of
                   Inl e \<Rightarrow> Inl e
                 | Inr _ \<Rightarrow>
                     (case create_rock_surface WALL_WIDTH (max 10 bot_h) of
                        Inl e \<Rightarrow> Inl e
                      | Inr _ \<Rightarrow>
                          Inr \<lparr> w_x = real_of_int x, w_speed = speed, w_gap_size = gap_size,
                                w_scored = False, w_gap_y = gy,
                                w_top_h = max 10 top_h,
                                w_bot_start = gy + gap_size div 2 \<rparr>)))"

definition WallPair_top_rect :: "wallpair \<Rightarrow> rect" where
  "WallPair_top_rect w = (py_int (w_x w), 0, WALL_WIDTH, w_top_h w)"

definition WallPair_bot_rect :: "wallpair \<Rightarrow> rect" where
  "WallPair_bot_rect w =
     (py_int (w_x w), w_bot_start w, WALL_WIDTH, SCREEN_HEIGHT - w_bot_start w)"

definition WallPair_update :: "wallpair \<Rightarrow> wallpair" where
  "WallPair_update w = w\<lparr>w_x := w_x w - w_speed w\<rparr>"

definition WallPair_off_screen :: "wallpair \<Rightarrow> bool" where
  "WallPair_off_screen w = (w_x w + real_of_int WALL_WIDTH < - 10)"

definition WallPair_collides :: "wallpair \<Rightarrow> rect \<Rightarrow> bool" where
  "WallPair_collides w player_rect =
     (colliderect (WallPair_top_rect w) player_rect \<or>
      colliderect (WallPair_bot_rect w) player_rect)"

subsection \<open>Enemy (lines 322-354) and Coin (lines 357-385)\<close>

text \<open>
  The image files are taken to be present, so \<open>load_scaled_image\<close> returns. The arguments
  after \<open>speed\<close> are the raw draws of the constructor, in the order it makes them.
\<close>

record enemy =
  e_x :: real
  e_base_y :: real
  e_y :: real
  e_speed :: real
  e_wave_t :: real
  e_wave_amp :: int
  e_wave_spd :: real

definition Enemy_init :: "real \<Rightarrow> int \<Rightarrow> int \<Rightarrow> real \<Rightarrow> int \<Rightarrow> real \<Rightarrow> py_error + enemy" where
  "Enemy_init speed rx ry ut ra us =
     (case randint 20 120 rx of
        Inl e \<Rightarrow> Inl e
      | Inr dx \<Rightarrow>
          (case randint 40 (SCREEN_HEIGHT - ENEMY_H - 40) ry of
             Inl e \<Rightarrow> Inl e
           | Inr by \<Rightarrow>
               (case randint 25 55 ra of
                  Inl e \<Rightarrow> Inl e
                | Inr amp \<Rightarrow>
                    Inr \<lparr> e_x = real_of_int (SCREEN_WIDTH + dx),
                          e_base_y = real_of_int by, e_y = real_of_int by,
                          e_speed = speed,
                          e_wave_t = uniform 0 (2 * pi) ut,
                          e_wave_amp = amp,
                          e_wave_spd = uniform (25 / 1000) (55 / 1000) us \<rparr>)))"

definition Enemy_rect :: "enemy \<Rightarrow> rect" where
  "Enemy_rect e = (py_int (e_x e) + 10, py_int (e_y e) + 10, ENEMY_W - 20, ENEMY_H - 20)"

definition Enemy_update :: "enemy \<Rightarrow> enemy" where
  "Enemy_update e =
     (let t = e_wave_t e + e_wave_spd e
      in e\<lparr>e_x := e_x e - e_speed e, e_wave_t := t,
            e_y := e_base_y e + sin t * real_of_int (e_wave_amp e)\<rparr>)"

definition Enemy_off_screen :: "enemy \<Rightarrow> bool" where
  "Enemy_off_screen e = (e_x e + real_of_int ENEMY_W < - 10)"

definition Enemy_collides :: "enemy \<Rightarrow> rect \<Rightarrow> bool" where
  "Enemy_collides e player_rect = colliderect (Enemy_rect e) player_rect"

record coin =
  c_x :: real
  c_base_y :: real
  c_y :: real
  c_speed :: real
  c_bob_t :: real

definition Coin_init :: "real \<Rightarrow> int \<Rightarrow> real \<Rightarrow> real \<Rightarrow> coin" where
  "Coin_init x y speed u =
     \<lparr> c_x = x, c_base_y = real_of_int y, c_y = real_of_int y, c_speed = speed,
       c_bob_t = uniform 0 (2 * pi) u \<rparr>"

definition Coin_rect :: "coin \<Rightarrow> rect" where
  "Coin_rect c = (py_int (c_x c) + 4, py_int (c_y c) + 4, COIN_W - 8, COIN_H - 8)"

definition Coin_update :: "coin \<Rightarrow> coin" where
  "Coin_update c =
     (let t = c_bob_t c + 8 / 100
      in c\<lparr>c_x := c_x c - c_speed c, c_bob_t := t, c_y := c_base_y c + sin t * 6\<rparr>)"

definition Coin_off_screen :: "coin \<Rightarrow> bool" where
  "Coin_off_screen c = (c_x c + real_of_int COIN_W < - 10)"

definition Coin_collides :: "coin \<Rightarrow> rect \<Rightarrow> bool" where
  "Coin_collides c player_rect = colliderect (Coin_rect c) player_rect"

subsection \<open>Button (lines 388-413)\<close>

record button =
  b_rect :: rect
  b_hover :: bool

definition Button_init :: "int \<Rightarrow> int \<Rightarrow> int \<Rightarrow> int \<Rightarrow> button" where
  "Button_init cx cy w h = \<lparr> b_rect = (cx - w div 2, cy - h div 2, w, h), b_hover = False \<rparr>"

definition Button_update :: "int \<times> int \<Rightarrow> button \<Rightarrow> button" where
  "Button_update mouse_pos b = b\<lparr>b_hover := collidepoint (b_rect b) mouse_pos\<rparr>"

definition Button_clicked :: "button \<Rightarrow> int \<times> int \<Rightarrow> bool" where
  "Button_clicked b mouse_pos = collidepoint (b_rect b) mouse_pos"

subsection \<open>Level table and high score file (lines 84-106)\<close>

text \<open>
  \<open>levels.json\<close> is not part of the sources. A level is a dictionary read with
  \<open>lv.get(key, default)\<close>, so every key is optional: a field is \<open>None\<close> when the key is
  absent. Pixel sizes, frame counts, thresholds and values are integers, speeds and
  probabilities floats.
\<close>

record level =
  lv_score_threshold :: "int option"
  lv_gravity :: "real option"
  lv_wall_speed :: "real option"
  lv_gap_size :: "int option"
  lv_wall_spacing :: "int option"
  lv_enemy_speed :: "real option"
  lv_enemy_spawn_frames :: "int option"
  lv_coin_spawn_chance :: "real option"
  lv_max_coins_on_screen :: "int option"
  lv_coin_speed_multiplier :: "real option"
  lv_coin_min_gap_from_walls_px :: "int option"
  lv_coin_y_padding_px :: "int option"
  lv_coin_value :: "int option"

text \<open>\<open>d.get(key, default)\<close> on an optional field.\<close>

definition get :: "'a option \<Rightarrow> 'a \<Rightarrow> 'a" where
  "get field dflt = (case field of None \<Rightarrow> dflt | Some v \<Rightarrow> v)"

text \<open>
  What \<open>json.load(fh).get("high_score", 0)\<close> can return: a number (a JSON integer, a JSON
  real, or \<open>true\<close>/\<open>false\<close>, which Python counts as 1 and 0), or a value that is not a number
  (\<open>null\<close>, a string, an array, an object). Comparing a number with a number gives a truth
  value; comparing a number with anything else raises \<open>TypeError\<close>. \<open>py_gt a b\<close> is \<open>a > b\<close>
  for a number \<open>a\<close>, and \<open>py_max a b\<close> is \<open>max(a, b)\<close> for an integer \<open>a\<close>, which keeps \<open>a\<close>
  unless \<open>b > a\<close>.
\<close>

datatype py_num = PyInt int | PyFloat real | PyBool bool

datatype py_value = Num py_num | NotNum

definition num_value :: "py_num \<Rightarrow> real" where
  "num_value n =
     (case n of PyInt i \<Rightarrow> real_of_int i | PyFloat r \<Rightarrow> r | PyBool b \<Rightarrow> (if b then 1 else 0))"

definition py_gt :: "py_num \<Rightarrow> py_value \<Rightarrow> py_error + bool" where
  "py_gt a b = (case b of Num n \<Rightarrow> Inr (num_value a > num_value n) | NotNum \<Rightarrow> Inl TypeError)"

definition py_max :: "int \<Rightarrow> py_value \<Rightarrow> py_error + py_num" where
  "py_max a b =
     (case b of
        Num n \<Rightarrow> Inr (if num_value n > real_of_int a then n else PyInt a)
      | NotNum \<Rightarrow> Inl TypeError)"

text \<open>
  The file \<open>highscore.json\<close> as the two functions meet it. Reading: the file is missing
  (\<open>open\<close> raises \<open>FileNotFoundError\<close>); it cannot be opened for another reason, such as
  missing permission or being a directory (\<open>open\<close> raises another \<open>OSError\<close>); its bytes are
  not text (\<open>UnicodeDecodeError\<close>); its text is not JSON (\<open>JSONDecodeError\<close>); its JSON value
  is not an object, so that \<open>.get\<close> raises \<open>AttributeError\<close>; or it holds a JSON object, whose
  key \<open>high_score\<close> is absent or has a value. Writing: \<open>open(HIGHSCORE_FILE, "w")\<close> raises
  an \<open>OSError\<close> when the file cannot be written.
\<close>

datatype hs_file = Missing | Unreadable | NotText | NotJSON | NotObject | Doc "py_value option"

record disk =
  dk_file :: hs_file
  dk_writable :: bool

text \<open>
  \<open>load_highscore\<close> catches \<open>FileNotFoundError\<close> and \<open>JSONDecodeError\<close> and nothing else.
\<close>

definition load_highscore :: "disk \<Rightarrow> py_error + py_value" where
  "load_highscore d =
     (case dk_file d of
        Missing \<Rightarrow> Inr (Num (PyInt 0))
      | Unreadable \<Rightarrow> Inl OSError
      | NotText \<Rightarrow> Inl UnicodeDecodeError
      | NotJSON \<Rightarrow> Inr (Num (PyInt 0))
      | NotObject \<Rightarrow> Inl AttributeError
      | Doc v \<Rightarrow> Inr (get v (Num (PyInt 0))))"

text \<open>
  \<open>save_highscore\<close> catches nothing. The file outlives an exception, so the result is the file
  after the call together with the way the call ended: the exception, or the value returned.
\<close>

definition save_highscore :: "py_num \<Rightarrow> disk \<Rightarrow> disk \<times> (py_error + bool)" where
  "save_highscore score d =
     (case load_highscore d of
        Inl e \<Rightarrow> (d, Inl e)
      | Inr current \<Rightarrow>
          (case py_gt score current of
             Inl e \<Rightarrow> (d, Inl e)
           | Inr beats \<Rightarrow>
               if beats
               then (if dk_writable d then (d\<lparr>dk_file := Doc (Some (Num score))\<rparr>, Inr True)
                     else (d, Inl OSError))
               else (d, Inr False)))"

subsection \<open>Game: state, level look-up, transitions (lines 420-522)\<close>

datatype game_state = START | PLAYING | GAME_OVER

text \<open>
  The fields of \<open>Game\<close> that the game logic reads or writes, and with them \<open>g_disk\<close>, the
  file \<open>highscore.json\<close>, which \<open>_game_over\<close> and \<open>_quit\<close> rewrite. \<open>high_score\<close> holds
  whatever \<open>load_highscore\<close> returned at start-up until a score is saved.
\<close>

record game =
  g_bg_x :: real
  g_levels :: "level list"
  g_high_score :: py_value
  g_btn_start :: button
  g_btn_restart :: button
  g_state :: game_state
  g_player :: player
  g_walls :: "wallpair list"
  g_enemies :: "enemy list"
  g_coins :: "coin list"
  g_score :: int
  g_coins_collected :: int
  g_grace_frames :: int
  g_enemy_timer :: int
  g_level_idx :: int
  g_disk :: disk

definition Game_init :: "level list \<Rightarrow> disk \<Rightarrow> py_error + game" where
  "Game_init levels d =
     (case load_highscore d of
        Inl e \<Rightarrow> Inl e
      | Inr high_score \<Rightarrow>
          Inr \<lparr> g_bg_x = 0, g_levels = levels, g_high_score = high_score,
                g_btn_start = Button_init (SCREEN_WIDTH div 2) 410 210 55,
                g_btn_restart = Button_init (SCREEN_WIDTH div 2) (SCREEN_HEIGHT div 2 + 80) 220 55,
                g_state = START, g_player = Player_init,
                g_walls = [], g_enemies = [], g_coins = [],
                g_score = 0, g_coins_collected = 0, g_grace_frames = 0, g_enemy_timer = 0,
                g_level_idx = 0, g_disk = d \<rparr>)"

text \<open>
  \<open>_level\<close>: the \<open>for\<close> loop over \<open>enumerate(self.levels)\<close>, then the fall-through to the last
  entry, where \<open>self.levels[-1]\<close> raises \<open>IndexError\<close> on an empty table.
\<close>

fun level_scan :: "level list \<Rightarrow> int \<Rightarrow> int \<Rightarrow> (int \<times> level) option" where
  "level_scan [] score i = None"
| "level_scan (lv # lvs) score i =
     (if score < get (lv_score_threshold lv) 999999 then Some (i, lv)
      else level_scan lvs score (i + 1))"

definition select_level :: "level list \<Rightarrow> int \<Rightarrow> py_error + (int \<times> level)" where
  "select_level levels score =
     (case level_scan levels score 0 of
        Some r \<Rightarrow> Inr r
      | None \<Rightarrow>
          if levels = [] then Inl IndexError
          else Inr (int (length levels) - 1, last levels))"

definition Game_level :: "game \<Rightarrow> py_error + (level \<times> game)" where
  "Game_level g =
     (case select_level (g_levels g) (g_score g) of
        Inl e \<Rightarrow> Inl e
      | Inr (i, lv) \<Rightarrow> Inr (lv, g\<lparr>g_level_idx := i\<rparr>))"

definition Game_start_game :: "game \<Rightarrow> game" where
  "Game_start_game g =
     g\<lparr>g_state := PLAYING, g_player := Player_reset (g_player g),
       g_walls := [], g_enemies := [], g_coins := [],
       g_score := 0, g_coins_collected := 0, g_grace_frames := 50,
       g_enemy_timer := 0, g_level_idx := 0\<rparr>"

text \<open>
  \<open>_game_over\<close> and \<open>_quit\<close> let an exception of \<open>save_highscore\<close> (and of \<open>max\<close>) pass.
  \<open>_quit\<close> then leaves through \<open>sys.exit()\<close>; its result is the state it leaves.
\<close>

definition Game_game_over :: "game \<Rightarrow> py_error + game" where
  "Game_game_over g =
     (let g1 = g\<lparr>g_state := GAME_OVER, g_player := (g_player g)\<lparr>p_alive := False\<rparr>\<rparr>;
          (d, result) = save_highscore (PyInt (g_score g1)) (g_disk g1)
      in case result of
           Inl e \<Rightarrow> Inl e
         | Inr saved \<Rightarrow>
             Inr (if saved then g1\<lparr>g_disk := d, g_high_score := Num (PyInt (g_score g1))\<rparr>
                  else g1\<lparr>g_disk := d\<rparr>))"

definition Game_quit :: "game \<Rightarrow> py_error + game" where
  "Game_quit g =
     (case py_max (g_score g) (g_high_score g) of
        Inl e \<Rightarrow> Inl e
      | Inr best \<Rightarrow>
          (let (d, result) = save_highscore best (g_disk g)
           in case result of
                Inl e \<Rightarrow> Inl e
              | Inr saved \<Rightarrow> Inr (g\<lparr>g_disk := d\<rparr>)))"

subsection \<open>Game: event handling (lines 526-558)\<close>

datatype event = QUIT | KEYDOWN int | MOUSEBUTTONDOWN int "int \<times> int" | OTHER

definition K_SPACE :: int where "K_SPACE = 32"

text \<open>
  One turn of the \<open>for ev in pygame.event.get()\<close> loop. \<open>Inr\<close> is the state after the event.
  \<open>Inl\<close> is the end of the program in \<open>_quit\<close>: the state in which \<open>SystemExit\<close> left it, or
  the exception that saving the score raised before.
\<close>

definition handle_event :: "event \<Rightarrow> game \<Rightarrow> (py_error + game) + game" where
  "handle_event ev g =
     (if ev = QUIT then Inl (Game_quit g)
      else Inr
        (case g_state g of
           START \<Rightarrow>
             (case ev of
                MOUSEBUTTONDOWN b pos \<Rightarrow>
                  if b = 1 \<and> Button_clicked (g_btn_start g) pos then Game_start_game g else g
              | _ \<Rightarrow> g)
         | PLAYING \<Rightarrow>
             (let do_flap =
                    (case ev of
                       KEYDOWN k \<Rightarrow> k = K_SPACE
                     | MOUSEBUTTONDOWN b pos \<Rightarrow> b = 1
                     | _ \<Rightarrow> False)
              in if do_flap
                 then (let g1 = g\<lparr>g_player := Player_flap (g_player g)\<rparr>
                       in if g_grace_frames g1 > 0 then g1\<lparr>g_grace_frames := 0\<rparr> else g1)
                 else g)
         | GAME_OVER \<Rightarrow>
             (let g1 = (case ev of
                          MOUSEBUTTONDOWN b pos \<Rightarrow>
                            if b = 1 \<and> Button_clicked (g_btn_restart g) pos
                            then Game_start_game g else g
                        | _ \<Rightarrow> g)
              in case ev of
                   KEYDOWN k \<Rightarrow> if k = K_SPACE then Game_start_game g1 else g1
                 | _ \<Rightarrow> g1)))"


subsection \<open>Game: the frame update (lines 562-685)\<close>

text \<open>
  The raw random draws one frame may consume, named after their use: the gap centre of a new
  wall; the x offset, base line, phase, amplitude and frequency of a new enemy; the coin
  roll (\<open>random.random()\<close>), the coin's x and y jitter and its phase.
\<close>

record draws =
  d_gap :: int
  d_enemy_x :: int
  d_enemy_y :: int
  d_enemy_wave_t :: real
  d_enemy_amp :: int
  d_enemy_wave_spd :: real
  d_coin_roll :: real
  d_coin_dx :: int
  d_coin_dy :: int
  d_coin_bob :: real

text \<open>\<open>self.bg_x -= dx\<close> followed by the wrap-around, as all three states do it.\<close>

definition scroll :: "real \<Rightarrow> real \<Rightarrow> real" where
  "scroll bg_x dx =
     (let b = bg_x - dx
      in if b \<le> - real_of_int SCREEN_WIDTH then b + real_of_int SCREEN_WIDTH else b)"

text \<open>Wall spawning (lines 594-603); the flag is \<open>wall_just_spawned\<close>.\<close>

definition wall_spawning :: "level \<Rightarrow> draws \<Rightarrow> game \<Rightarrow> py_error + (game \<times> bool)" where
  "wall_spawning lv d g =
     (let wall_speed = get (lv_wall_speed lv) 2;
          gap_size = max (get (lv_gap_size lv) 200) (PLAYER_H + 80);
          wall_spacing = get (lv_wall_spacing lv) 350
      in if g_walls g = [] \<or> w_x (last (g_walls g)) < real_of_int (SCREEN_WIDTH - wall_spacing)
         then (case WallPair_init (SCREEN_WIDTH + 40) gap_size wall_speed None (d_gap d) of
                 Inl e \<Rightarrow> Inl e
               | Inr w \<Rightarrow> Inr (g\<lparr>g_walls := g_walls g @ [w]\<rparr>, True))
         else Inr (g, False))"

text \<open>
  Wall update (lines 606-618). \<open>wall_pass\<close> is the head of the loop body: \<open>w.update()\<close> and the
  scoring test, with the increment of \<open>self.score\<close> as second component. The loop runs over
  the copy \<open>self.walls[:]\<close>; \<open>self.walls.remove(w)\<close> takes the wall at hand out of the live list.
  The result is the live list, the score and whether the loop left through \<open>_game_over\<close>: on a
  collision the walls behind the colliding one have not been touched.
\<close>

definition wall_pass :: "int \<Rightarrow> wallpair \<Rightarrow> wallpair \<times> int" where
  "wall_pass player_x w =
     (let w1 = WallPair_update w
      in if \<not> w_scored w1 \<and> w_x w1 + real_of_int WALL_WIDTH < real_of_int player_x
         then (w1\<lparr>w_scored := True\<rparr>, 1)
         else (w1, 0))"

fun walls_loop :: "wallpair list \<Rightarrow> player \<Rightarrow> int \<Rightarrow> wallpair list \<times> int \<times> bool" where
  "walls_loop [] p score = ([], score, False)"
| "walls_loop (w # ws) p score =
     (let (w1, inc) = wall_pass (p_x p) w;
          score1 = score + inc
      in if WallPair_collides w1 (Player_rect p) then (w1 # ws, score1, True)
         else (let (ws', score', hit) = walls_loop ws p score1
               in (if WallPair_off_screen w1 then ws' else w1 # ws', score', hit)))"

definition wall_update :: "game \<Rightarrow> game \<times> bool" where
  "wall_update g =
     (let (ws, score, hit) = walls_loop (g_walls g) (g_player g) (g_score g)
      in (g\<lparr>g_walls := ws, g_score := score\<rparr>, hit))"

text \<open>Enemy spawning (lines 621-628) and enemy update (lines 631-637).\<close>

definition enemy_spawning :: "level \<Rightarrow> draws \<Rightarrow> game \<Rightarrow> py_error + game" where
  "enemy_spawning lv d g =
     (let enemy_speed = get (lv_enemy_speed lv) (3 / 2);
          enemy_freq = get (lv_enemy_spawn_frames lv) 500;
          g1 = g\<lparr>g_enemy_timer := g_enemy_timer g + 1\<rparr>
      in if g_enemy_timer g1 \<ge> enemy_freq
         then (case Enemy_init enemy_speed (d_enemy_x d) (d_enemy_y d) (d_enemy_wave_t d)
                      (d_enemy_amp d) (d_enemy_wave_spd d) of
                 Inl e \<Rightarrow> Inl e
               | Inr en \<Rightarrow> Inr (g1\<lparr>g_enemies := g_enemies g1 @ [en], g_enemy_timer := 0\<rparr>))
         else Inr g1)"

fun enemies_loop :: "enemy list \<Rightarrow> player \<Rightarrow> enemy list \<times> bool" where
  "enemies_loop [] p = ([], False)"
| "enemies_loop (e # es) p =
     (let e1 = Enemy_update e
      in if Enemy_collides e1 (Player_rect p) then (e1 # es, True)
         else (let (es', hit) = enemies_loop es p
               in (if Enemy_off_screen e1 then es' else e1 # es', hit)))"

definition enemy_update :: "game \<Rightarrow> game \<times> bool" where
  "enemy_update g =
     (let (es, hit) = enemies_loop (g_enemies g) (g_player g)
      in (g\<lparr>g_enemies := es\<rparr>, hit))"

text \<open>
  Coin spawning (lines 640-666). \<open>self.walls[-1]\<close> raises \<open>IndexError\<close> when the wall update
  has emptied the list. \<open>-latest.gap_size // 3\<close> negates before it divides.
\<close>

definition coin_spawning :: "level \<Rightarrow> draws \<Rightarrow> bool \<Rightarrow> game \<Rightarrow> py_error + game" where
  "coin_spawning lv d wall_just_spawned g =
     (if \<not> wall_just_spawned then Inr g
      else
        (let coin_chance = get (lv_coin_spawn_chance lv) (1 / 2);
             max_coins = get (lv_max_coins_on_screen lv) 3
         in if d_coin_roll d < coin_chance \<and> int (length (g_coins g)) < max_coins
            then
              (let wall_speed = get (lv_wall_speed lv) 2;
                   wall_spacing = get (lv_wall_spacing lv) 350;
                   speed_mult = get (lv_coin_speed_multiplier lv) 1;
                   min_gap_px = get (lv_coin_min_gap_from_walls_px lv) 100;
                   y_pad = get (lv_coin_y_padding_px lv) 50
               in if g_walls g = [] then Inl IndexError
                  else
                    (let latest = last (g_walls g);
                         space = wall_spacing + 40 - WALL_WIDTH
                     in case randint (- 20) 20 (d_coin_dx d) of
                          Inl e \<Rightarrow> Inl e
                        | Inr dx \<Rightarrow>
                            (let coin_x0 = w_x latest + real_of_int WALL_WIDTH
                                   + real_of_int (space div 2) - real_of_int (COIN_W div 2)
                                   + real_of_int dx;
                                 coin_x = max coin_x0
                                   (w_x latest + real_of_int WALL_WIDTH + real_of_int min_gap_px)
                             in case randint ((- w_gap_size latest) div 3)
                                       (w_gap_size latest div 3) (d_coin_dy d) of
                                  Inl e \<Rightarrow> Inl e
                                | Inr dy \<Rightarrow>
                                    (let coin_y0 = w_gap_y latest + dy - COIN_H div 2;
                                         coin_y = max y_pad
                                           (min (SCREEN_HEIGHT - y_pad - COIN_H) coin_y0)
                                     in Inr (g\<lparr>g_coins := g_coins g @
                                          [Coin_init coin_x coin_y (wall_speed * speed_mult)
                                             (d_coin_bob d)]\<rparr>)))))
            else Inr g))"

text \<open>
  Coin update (lines 669-678), again over a copy of the list: a coin that touches the player
  is credited and removed, one that has left the screen is removed, the others stay.
\<close>

fun coins_loop :: "coin list \<Rightarrow> player \<Rightarrow> int \<Rightarrow> int \<Rightarrow> coin list \<times> int" where
  "coins_loop [] p coin_value collected = ([], collected)"
| "coins_loop (c # cs) p coin_value collected =
     (let c1 = Coin_update c
      in if Coin_collides c1 (Player_rect p)
         then coins_loop cs p coin_value (collected + coin_value)
         else (let (cs', n) = coins_loop cs p coin_value collected
               in (if Coin_off_screen c1 then cs' else c1 # cs', n)))"

definition coin_update :: "level \<Rightarrow> game \<Rightarrow> game" where
  "coin_update lv g =
     (let coin_value = get (lv_coin_value lv) 1;
          (cs, n) = coins_loop (g_coins g) (g_player g) coin_value (g_coins_collected g)
      in g\<lparr>g_coins := cs, g_coins_collected := n\<rparr>)"

text \<open>
  The \<open>PLAYING\<close> branch, section by section in the order of the source. Player physics
  (lines 576-583): the level's gravity, the grace flag read before the counter is decreased,
  and \<open>player.update\<close>. Background parallax (lines 589-591).
\<close>

definition player_physics :: "level \<Rightarrow> game \<Rightarrow> game" where
  "player_physics lv g =
     (let grav = get (lv_gravity lv) (3 / 10);
          grace = g_grace_frames g > 0;
          g1 = (if grace then g\<lparr>g_grace_frames := g_grace_frames g - 1\<rparr> else g)
      in g1\<lparr>g_player := Player_update (Some grav) grace (g_player g1)\<rparr>)"

definition background_parallax :: "level \<Rightarrow> game \<Rightarrow> game" where
  "background_parallax lv g =
     g\<lparr>g_bg_x := scroll (g_bg_x g) (get (lv_wall_speed lv) 2 * (25 / 100))\<rparr>"

text \<open>
  The whole branch: level, player physics and the floor death, background, walls, enemies,
  coins. Each \<open>return\<close> after \<open>_game_over\<close> ends the frame.
\<close>

definition update_playing :: "draws \<Rightarrow> game \<Rightarrow> py_error + game" where
  "update_playing d g0 =
     (case Game_level g0 of
        Inl e \<Rightarrow> Inl e
      | Inr (lv, g1) \<Rightarrow>
          (let g2 = player_physics lv g1
           in if \<not> p_alive (g_player g2) then Game_game_over g2
              else
                (case wall_spawning lv d (background_parallax lv g2) of
                   Inl e \<Rightarrow> Inl e
                 | Inr (g4, wall_just_spawned) \<Rightarrow>
                     (let (g5, hit) = wall_update g4
                      in if hit then Game_game_over g5
                         else
                           (case enemy_spawning lv d g5 of
                              Inl e \<Rightarrow> Inl e
                            | Inr g6 \<Rightarrow>
                                (let (g7, hit') = enemy_update g6
                                 in if hit' then Game_game_over g7
                                    else
                                      (case coin_spawning lv d wall_just_spawned g7 of
                                         Inl e \<Rightarrow> Inl e
                                       | Inr g8 \<Rightarrow> Inr (coin_update lv g8))))))))"

definition Game_update :: "int \<times> int \<Rightarrow> draws \<Rightarrow> game \<Rightarrow> py_error + game" where
  "Game_update mouse_pos d g =
     (case g_state g of
        START \<Rightarrow>
          Inr (g\<lparr>g_btn_start := Button_update mouse_pos (g_btn_start g),
                 g_player := Player_bob (g_player g),
                 g_bg_x := scroll (g_bg_x g) (3 / 10)\<rparr>)
      | PLAYING \<Rightarrow> update_playing d g
      | GAME_OVER \<Rightarrow>
          Inr (g\<lparr>g_btn_restart := Button_update mouse_pos (g_btn_restart g),
                 g_bg_x := scroll (g_bg_x g) (15 / 100)\<rparr>))"

subsection \<open>Game: the main loop (lines 799-804)\<close>



subsection \<open>Sample data\<close>

text \<open>
  Concrete inputs for the examples below: a level entry without any key, so that every
  tunable takes its default; the draws of a frame in which the coin roll fails; a writable
  place without a high score file; the start screen of a game set up with that one level
  and no file; and a round that has just been started from it.
\<close>

definition empty_level :: level where
  "empty_level =
     \<lparr> lv_score_threshold = None, lv_gravity = None, lv_wall_speed = None, lv_gap_size = None,
       lv_wall_spacing = None, lv_enemy_speed = None, lv_enemy_spawn_frames = None,
       lv_coin_spawn_chance = None, lv_max_coins_on_screen = None,
       lv_coin_speed_multiplier = None, lv_coin_min_gap_from_walls_px = None,
       lv_coin_y_padding_px = None, lv_coin_value = None \<rparr>"

definition quiet_draws :: draws where
  "quiet_draws =
     \<lparr> d_gap = 0, d_enemy_x = 0, d_enemy_y = 0, d_enemy_wave_t = 0, d_enemy_amp = 0,
       d_enemy_wave_spd = 0, d_coin_roll = 9 / 10, d_coin_dx = 0, d_coin_dy = 0,
       d_coin_bob = 0 \<rparr>"

definition no_file :: disk where
  "no_file = \<lparr> dk_file = Missing, dk_writable = True \<rparr>"

definition start_screen :: game where
  "start_screen =
     \<lparr> g_bg_x = 0, g_levels = [empty_level], g_high_score = Num (PyInt 0),
       g_btn_start = Button_init (SCREEN_WIDTH div 2) 410 210 55,
       g_btn_restart = Button_init (SCREEN_WIDTH div 2) (SCREEN_HEIGHT div 2 + 80) 220 55,
       g_state = START, g_player = Player_init,
       g_walls = [], g_enemies = [], g_coins = [],
       g_score = 0, g_coins_collected = 0, g_grace_frames = 0, g_enemy_timer = 0,
       g_level_idx = 0, g_disk = no_file \<rparr>"

definition fresh_round :: game where
  "fresh_round = Game_start_game start_screen"

text \<open>A wall pair with a 200 pixel gap below a top body of height 280, at horizontal position \<open>x\<close>.\<close>

definition sample_wall :: "real \<Rightarrow> wallpair" where
  "sample_wall x =
     \<lparr> w_x = x, w_speed = 2, w_gap_size = 200, w_scored = False, w_gap_y = 380,
       w_top_h = 280, w_bot_start = 480 \<rparr>"

subsection \<open>Abbreviations for the statements\<close>

text \<open>
  \<open>threshold lv\<close> is \<open>lv.get("score_threshold", 999999)\<close>. \<open>frames px n w\<close> is the wall pair
  \<open>w\<close> after the loop body of the wall update has run on it in \<open>n\<close> frames.
  \<open>not_decreased d d'\<close> says that the file \<open>d'\<close> is the file \<open>d\<close>, or that both can be read,
  both hold a number, and the number in \<open>d'\<close> is at least the number in \<open>d\<close>.
\<close>

abbreviation threshold :: "level \<Rightarrow> int" where
  "threshold lv \<equiv> get (lv_score_threshold lv) 999999"

abbreviation frames :: "int \<Rightarrow> nat \<Rightarrow> wallpair \<Rightarrow> wallpair" where
  "frames px n w \<equiv> ((\<lambda>v. fst (wall_pass px v)) ^^ n) w"


lemmas sizes = SCREEN_WIDTH_def SCREEN_HEIGHT_def PLAYER_W_def PLAYER_H_def PLAYER_X_def
  ENEMY_W_def ENEMY_H_def COIN_W_def COIN_H_def WALL_WIDTH_def WALL_TIP_def

lemmas eval_defs = Game_update_def update_playing_def Game_level_def select_level_def
  player_physics_def background_parallax_def wall_spawning_def wall_update_def
  enemy_spawning_def enemy_update_def coin_spawning_def coin_update_def
  Game_game_over_def Game_quit_def save_highscore_def load_highscore_def
  py_gt_def py_max_def num_value_def no_file_def start_screen_def
  WallPair_init_def randint_def create_rock_surface_def
  wall_pass_def WallPair_update_def WallPair_collides_def WallPair_top_rect_def
  WallPair_bot_rect_def WallPair_off_screen_def
  Coin_update_def Coin_collides_def Coin_rect_def Coin_off_screen_def
  Enemy_update_def Enemy_collides_def Enemy_rect_def Enemy_off_screen_def
  Player_update_def Player_rect_def Player_reset_def Player_init_def Player_flap_def
  Game_start_game_def Game_init_def Button_init_def Button_update_def Button_clicked_def
  handle_event_def K_SPACE_def
  scroll_def get_def py_int_def empty_level_def quiet_draws_def fresh_round_def
  sample_wall_def sizes Let_def


section \<open>The obstacle generator\<close>

text \<open>
  What the constructor stores when it draws the gap centre itself: the centre lies in the
  clamped range and the two bodies end exactly where the gap, measured as twice the halved
  gap size, begins and ends.
\<close>

lemma WallPair_init_heights:
  assumes "WallPair_init x gap_size speed None r = Inr w"
  shows "70 + gap_size div 2 \<le> w_gap_y w \<and> w_gap_y w \<le> SCREEN_HEIGHT - 70 - gap_size div 2 \<and>
         w_gap_size w = gap_size \<and>
         w_top_h w = w_gap_y w - gap_size div 2 \<and>
         w_bot_start w = w_gap_y w + gap_size div 2"
proof -
  let ?lo = "70 + gap_size div 2" and ?hi = "SCREEN_HEIGHT - 70 - gap_size div 2"
  from assms obtain gy where gy: "randint ?lo ?hi r = Inr gy"
    and w: "w_gap_y w = gy" "w_gap_size w = gap_size" "w_top_h w = max 10 (gy - gap_size div 2)"
      "w_bot_start w = gy + gap_size div 2"
    by (auto simp: WallPair_init_def Let_def split: sum.splits)
  from gy have le: "?lo \<le> ?hi" and gy_eq: "gy = ?lo + r mod (?hi - ?lo + 1)"
    by (auto simp: randint_def split: if_splits)
  have "0 \<le> r mod (?hi - ?lo + 1)" "r mod (?hi - ?lo + 1) < ?hi - ?lo + 1"
    using le by simp_all
  with gy_eq have "?lo \<le> gy" "gy \<le> ?hi" by linarith+
  with w show ?thesis by simp
qed

text \<open>The constructor succeeds exactly when the clamped range is not empty.\<close>

lemma WallPair_init_succeeds:
  "(\<exists>w. WallPair_init x gap_size speed None r = Inr w) \<longleftrightarrow> 2 * (gap_size div 2) \<le> 460"
proof
  assume "\<exists>w. WallPair_init x gap_size speed None r = Inr w"
  then obtain w where "WallPair_init x gap_size speed None r = Inr w" ..
  from WallPair_init_heights[OF this] show "2 * (gap_size div 2) \<le> 460"
    by (simp add: sizes)
next
  let ?h = "gap_size div 2"
  define k where "k = r mod (461 - 2 * ?h)"
  assume le: "2 * ?h \<le> 460"
  then have k: "0 \<le> k" "k < 461 - 2 * ?h" by (simp_all add: k_def)
  have draw: "randint (70 + ?h) (SCREEN_HEIGHT - 70 - ?h) r = Inr (70 + ?h + k)"
    using le by (simp add: randint_def sizes k_def)
  have top: "create_rock_surface WALL_WIDTH (max 10 (70 + ?h + k - ?h)) = Inr ()"
    using k by (simp add: create_rock_surface_def sizes)
  have bot: "create_rock_surface WALL_WIDTH (max 10 (SCREEN_HEIGHT - (70 + ?h + k + ?h))) = Inr ()"
    using k by (simp add: create_rock_surface_def sizes)
  show "\<exists>w. WallPair_init x gap_size speed None r = Inr w"
    unfolding WallPair_init_def Let_def
    by (simp only: draw top bot sum.case option.case) simp
qed

lemma WallPair_init_example:
  "WallPair_init 840 200 2 None 37 = Inr
     \<lparr> w_x = 840, w_speed = 2, w_gap_size = 200, w_scored = False, w_gap_y = 207,
       w_top_h = 107, w_bot_start = 307 \<rparr>"
  by (simp add: WallPair_init_def randint_def create_rock_surface_def sizes Let_def)

text \<open>
  Claim C1, as amended. For every obstacle pair the generator creates with a gap centre it
  draws itself, the height of the top body (\<open>_top_h\<close>, the height of \<open>top_rect\<close>) and the
  height of the bottom body (\<open>SCREEN_HEIGHT - _bot_start\<close>, the height of \<open>bot_rect\<close>) are each
  at least the margin 70, and top height + 2 * (gap_size // 2) + bottom height is the screen
  height. The halves are floor divisions, so with the configured gap size itself the sum is
  the screen height plus \<open>gap_size mod 2\<close>: 600 for an even gap size, 601 for an odd one.
\<close>

theorem C1_wall_heights:
  assumes "WallPair_init x gap_size speed None r = Inr w"
  shows "70 \<le> w_top_h w \<and> 70 \<le> SCREEN_HEIGHT - w_bot_start w \<and>
         WallPair_top_rect w = (py_int (real_of_int x), 0, WALL_WIDTH, w_top_h w) \<and>
         WallPair_bot_rect w =
           (py_int (real_of_int x), w_bot_start w, WALL_WIDTH, SCREEN_HEIGHT - w_bot_start w) \<and>
         w_top_h w + 2 * (gap_size div 2) + (SCREEN_HEIGHT - w_bot_start w) = SCREEN_HEIGHT \<and>
         w_top_h w + gap_size + (SCREEN_HEIGHT - w_bot_start w) = SCREEN_HEIGHT + gap_size mod 2"
proof -
  have "w_x w = real_of_int x" using assms
    by (auto simp: WallPair_init_def Let_def split: sum.splits)
  moreover have "gap_size - 2 * (gap_size div 2) = gap_size mod 2" by presburger
  ultimately show ?thesis
    using WallPair_init_heights[OF assms]
    by (simp add: WallPair_top_rect_def WallPair_bot_rect_def)
qed

theorem C1_wall_heights_witness:
  "WallPair_init 840 200 2 None 37 = Inr
     \<lparr> w_x = 840, w_speed = 2, w_gap_size = 200, w_scored = False, w_gap_y = 207,
       w_top_h = 107, w_bot_start = 307 \<rparr> \<and>
   (70::int) \<le> 107 \<and> 70 \<le> SCREEN_HEIGHT - 307 \<and>
   107 + 200 + (SCREEN_HEIGHT - 307) = SCREEN_HEIGHT"
  using C1_wall_heights[OF WallPair_init_example] WallPair_init_example by (simp add: sizes)

text \<open>
  The claim as stated fails for an odd gap size: with gap size 151 and the smallest draw the
  bodies are 70 and 380 high, and 70 + 151 + 380 = 601.
\<close>

theorem C1_counterexample:
  "(case WallPair_init 840 151 2 None 0 of
      Inl e \<Rightarrow> False
    | Inr w \<Rightarrow> w_top_h w = 70 \<and> w_gap_size w = 151 \<and> SCREEN_HEIGHT - w_bot_start w = 380 \<and>
        w_top_h w + w_gap_size w + (SCREEN_HEIGHT - w_bot_start w) \<noteq> SCREEN_HEIGHT)"
  by (simp add: WallPair_init_def randint_def create_rock_surface_def sizes Let_def)

section \<open>Level selection\<close>

lemma level_scan_Some:
  "level_scan lvs score i = Some (j, lv) \<Longrightarrow>
     i \<le> j \<and> nat (j - i) < length lvs \<and> lv = lvs ! nat (j - i) \<and> score < threshold lv \<and>
     (\<forall>k < nat (j - i). threshold (lvs ! k) \<le> score)"
proof (induction lvs arbitrary: i)
  case Nil
  then show ?case by simp
next
  case (Cons l lvs)
  show ?case
  proof (cases "score < threshold l")
    case True
    with Cons.prems show ?thesis by simp
  next
    case False
    with Cons.prems have rec: "level_scan lvs score (i + 1) = Some (j, lv)" by simp
    from Cons.IH[OF rec] have ih: "i + 1 \<le> j" "nat (j - (i + 1)) < length lvs"
      "lv = lvs ! nat (j - (i + 1))" "score < threshold lv"
      "\<forall>k < nat (j - (i + 1)). threshold (lvs ! k) \<le> score" by blast+
    from ih(1) have step: "nat (j - i) = Suc (nat (j - (i + 1)))" by linarith
    have "\<forall>k < nat (j - i). threshold ((l # lvs) ! k) \<le> score"
    proof (intro allI impI)
      fix k assume "k < nat (j - i)"
      then show "threshold ((l # lvs) ! k) \<le> score"
        using False ih(5) step by (cases k) auto
    qed
    with ih step show ?thesis by simp
  qed
qed

lemma level_scan_None:
  "level_scan lvs score i = None \<longleftrightarrow> (\<forall>lv \<in> set lvs. threshold lv \<le> score)"
  by (induction lvs arbitrary: i) auto

lemma level_scan_mono:
  "a \<le> b \<Longrightarrow> level_scan lvs b i = Some (j, lv) \<Longrightarrow>
     \<exists>j' lv'. level_scan lvs a i = Some (j', lv') \<and> j' \<le> j"
proof (induction lvs arbitrary: i)
  case Nil
  then show ?case by simp
next
  case (Cons l lvs)
  show ?case
  proof (cases "a < threshold l")
    case True
    from level_scan_Some[OF Cons.prems(2)] have "i \<le> j" by simp
    with True show ?thesis by simp
  next
    case False
    with Cons.prems(1) have "\<not> b < threshold l" by simp
    with Cons.prems(2) have "level_scan lvs b (i + 1) = Some (j, lv)" by simp
    from Cons.IH[OF Cons.prems(1) this] False show ?thesis by simp
  qed
qed

lemma level_scan_bound:
  "level_scan lvs score i = Some (j, lv) \<Longrightarrow> j < i + int (length lvs)"
  using level_scan_Some[of lvs score i j lv] by linarith

lemma select_level_mono:
  assumes "levels \<noteq> []" "a \<le> b"
  shows "\<exists>i la j lb. select_level levels a = Inr (i, la) \<and> select_level levels b = Inr (j, lb) \<and> i \<le> j"
proof (cases "level_scan levels b 0")
  case None
  show ?thesis
  proof (cases "level_scan levels a 0")
    case None
    with \<open>level_scan levels b 0 = None\<close> assms(1) show ?thesis
      by (simp add: select_level_def)
  next
    case (Some r)
    obtain i la where r: "r = (i, la)" by (cases r)
    from level_scan_bound[of levels a 0 i la] Some r have "i \<le> int (length levels) - 1" by simp
    with Some r None assms(1) show ?thesis by (simp add: select_level_def)
  qed
next
  case (Some r)
  obtain j lb where r: "r = (j, lb)" by (cases r)
  from level_scan_mono[OF assms(2), of levels 0 j lb] Some r
  obtain i la where "level_scan levels a 0 = Some (i, la)" "i \<le> j" by auto
  with Some r show ?thesis by (simp add: select_level_def)
qed

text \<open>
  Claim C5. For every score and every non-empty level table, \<open>_level\<close> returns the first
  entry whose threshold (999999 when the key is absent) strictly exceeds the score: every
  entry before it has a threshold at most the score. When no threshold exceeds the score it
  returns the last entry. The selected index is monotone in the score.
\<close>

theorem C5_level_selection:
  assumes "levels \<noteq> []"
  shows "\<exists>i lv. select_level levels score = Inr (i, lv) \<and>
           0 \<le> i \<and> i < int (length levels) \<and> lv = levels ! nat i \<and>
           (\<forall>k < nat i. threshold (levels ! k) \<le> score) \<and>
           (score < threshold lv \<or>
            (i = int (length levels) - 1 \<and> lv = last levels \<and>
             (\<forall>k < length levels. threshold (levels ! k) \<le> score))) \<and>
           (\<forall>score'. score \<le> score' \<longrightarrow>
              (\<exists>i' lv'. select_level levels score' = Inr (i', lv') \<and> i \<le> i'))"
proof -
  have mono: "\<forall>score'. score \<le> score' \<longrightarrow>
      (\<exists>i' lv'. select_level levels score' = Inr (i', lv') \<and> i \<le> i')"
    if "select_level levels score = Inr (i, lv)" for i lv
    using select_level_mono[OF assms] that by fastforce
  show ?thesis
  proof (cases "level_scan levels score 0")
    case None
    then have all: "\<forall>k < length levels. threshold (levels ! k) \<le> score"
      by (simp add: level_scan_None)
    have sel: "select_level levels score = Inr (int (length levels) - 1, last levels)"
      using None assms by (simp add: select_level_def)
    have "last levels = levels ! nat (int (length levels) - 1)"
      using assms by (simp add: last_conv_nth nat_diff_distrib')
    moreover have "0 \<le> int (length levels) - 1" using assms by (cases levels) simp_all
    ultimately show ?thesis using sel all mono[OF sel] by auto
  next
    case (Some r)
    obtain i lv where r: "r = (i, lv)" by (cases r)
    have sel: "select_level levels score = Inr (i, lv)"
      using Some r by (simp add: select_level_def)
    from level_scan_Some[of levels score 0 i lv] Some r
    have "0 \<le> i" "nat i < length levels" "lv = levels ! nat i" "score < threshold lv"
      "\<forall>k < nat i. threshold (levels ! k) \<le> score" by auto
    then show ?thesis using sel mono[OF sel] by auto
  qed
qed

theorem C5_level_selection_witness:
  "[empty_level\<lparr>lv_score_threshold := Some 5\<rparr>, empty_level\<lparr>lv_score_threshold := Some 15\<rparr>,
    empty_level] \<noteq> [] \<and>
   select_level [empty_level\<lparr>lv_score_threshold := Some 5\<rparr>,
                 empty_level\<lparr>lv_score_threshold := Some 15\<rparr>, empty_level] 7
     = Inr (1, empty_level\<lparr>lv_score_threshold := Some 15\<rparr>) \<and>
   select_level [empty_level\<lparr>lv_score_threshold := Some 5\<rparr>,
                 empty_level\<lparr>lv_score_threshold := Some 15\<rparr>, empty_level] 1000000
     = Inr (2, empty_level)"
  using C5_level_selection[of "[empty_level\<lparr>lv_score_threshold := Some 5\<rparr>,
      empty_level\<lparr>lv_score_threshold := Some 15\<rparr>, empty_level]" 7]
  by (simp add: select_level_def get_def empty_level_def)

section \<open>The shape of a frame\<close>

text \<open>
  Each section of the \<open>PLAYING\<close> branch touches few fields. The lemmas below say which, and
  split a frame that returns into the four ways it can end: the floor death, a wall hit, an
  enemy hit, or the coin update.
\<close>

lemma Game_level_eq:
  "Game_level g = Inr (lv, g') \<longleftrightarrow>
     (\<exists>i. select_level (g_levels g) (g_score g) = Inr (i, lv) \<and> g' = g\<lparr>g_level_idx := i\<rparr>)"
  by (auto simp: Game_level_def split: sum.splits)

lemma wall_spawning_shape:
  assumes "wall_spawning lv d g = Inr (g', b)"
  obtains ws where "g' = g\<lparr>g_walls := ws\<rparr>"
    "if b then \<exists>w gap_size speed.
                 WallPair_init (SCREEN_WIDTH + 40) gap_size speed None (d_gap d) = Inr w \<and>
                 ws = g_walls g @ [w]
     else ws = g_walls g"
proof -
  have "g' = g\<lparr>g_walls := g_walls g'\<rparr>"
    using assms by (auto simp: wall_spawning_def Let_def split: if_splits sum.splits)
  moreover have "if b then \<exists>w gap_size speed.
                 WallPair_init (SCREEN_WIDTH + 40) gap_size speed None (d_gap d) = Inr w \<and>
                 g_walls g' = g_walls g @ [w]
     else g_walls g' = g_walls g"
    using assms by (fastforce simp: wall_spawning_def Let_def split: if_splits sum.splits)
  ultimately show ?thesis by (rule that)
qed

lemma wall_update_shape:
  "wall_update g = (g', hit) \<Longrightarrow>
     g' = g\<lparr>g_walls := fst (walls_loop (g_walls g) (g_player g) (g_score g)),
            g_score := fst (snd (walls_loop (g_walls g) (g_player g) (g_score g)))\<rparr> \<and>
     hit = snd (snd (walls_loop (g_walls g) (g_player g) (g_score g)))"
  by (auto simp: wall_update_def Let_def split: prod.splits)

lemma enemy_spawning_shape:
  assumes "enemy_spawning lv d g = Inr g'"
  obtains t es where "g' = g\<lparr>g_enemy_timer := t, g_enemies := es\<rparr>"
    "es = g_enemies g \<or>
     (\<exists>e speed. Enemy_init speed (d_enemy_x d) (d_enemy_y d) (d_enemy_wave_t d)
                   (d_enemy_amp d) (d_enemy_wave_spd d) = Inr e \<and>
                 es = g_enemies g @ [e])"
proof -
  have "g' = g\<lparr>g_enemy_timer := g_enemy_timer g', g_enemies := g_enemies g'\<rparr>"
    using assms by (auto simp: enemy_spawning_def Let_def split: if_splits sum.splits)
  moreover have "g_enemies g' = g_enemies g \<or>
     (\<exists>e speed. Enemy_init speed (d_enemy_x d) (d_enemy_y d) (d_enemy_wave_t d)
                   (d_enemy_amp d) (d_enemy_wave_spd d) = Inr e \<and>
                 g_enemies g' = g_enemies g @ [e])"
    using assms by (fastforce simp: enemy_spawning_def Let_def split: if_splits sum.splits)
  ultimately show ?thesis by (rule that)
qed

lemma enemy_update_shape:
  "enemy_update g = (g', hit) \<Longrightarrow>
     g' = g\<lparr>g_enemies := fst (enemies_loop (g_enemies g) (g_player g))\<rparr> \<and>
     hit = snd (enemies_loop (g_enemies g) (g_player g))"
  by (auto simp: enemy_update_def Let_def split: prod.splits)

lemma coin_spawning_shape:
  assumes "coin_spawning lv d b g = Inr g'"
  obtains cs where "g' = g\<lparr>g_coins := cs\<rparr>"
    "cs = g_coins g \<or> (\<exists>c. b \<and> cs = g_coins g @ [c])"
proof -
  have "g' = g\<lparr>g_coins := g_coins g'\<rparr>"
    using assms by (auto simp: coin_spawning_def Let_def split: if_splits sum.splits)
  moreover have "g_coins g' = g_coins g \<or> (\<exists>c. b \<and> g_coins g' = g_coins g @ [c])"
    using assms by (auto simp: coin_spawning_def Let_def split: if_splits sum.splits)
  ultimately show ?thesis by (rule that)
qed

lemma coin_update_shape:
  "coin_update lv g =
     g\<lparr>g_coins := fst (coins_loop (g_coins g) (g_player g) (get (lv_coin_value lv) 1) (g_coins_collected g)),
       g_coins_collected := snd (coins_loop (g_coins g) (g_player g) (get (lv_coin_value lv) 1) (g_coins_collected g))\<rparr>"
  by (simp add: coin_update_def Let_def split: prod.splits)

lemma Game_game_over_shape:
  assumes "Game_game_over g = Inr g'"
  obtains dk hs saved where
    "g' = g\<lparr>g_state := GAME_OVER, g_player := (g_player g)\<lparr>p_alive := False\<rparr>,
            g_disk := dk, g_high_score := hs\<rparr>"
    "save_highscore (PyInt (g_score g)) (g_disk g) = (dk, Inr saved)"
proof (cases "save_highscore (PyInt (g_score g)) (g_disk g)")
  case (Pair dk result)
  with assms obtain saved where saved: "result = Inr saved"
    by (auto simp: Game_game_over_def Let_def split: sum.splits)
  show ?thesis
  proof (cases saved)
    case True
    with assms Pair saved
    have "g' = g\<lparr>g_state := GAME_OVER, g_player := (g_player g)\<lparr>p_alive := False\<rparr>,
            g_disk := dk, g_high_score := Num (PyInt (g_score g))\<rparr>"
      by (auto simp: Game_game_over_def Let_def)
    with Pair saved show ?thesis by (intro that[where dk = dk and hs = "Num (PyInt (g_score g))" and saved = saved]) simp_all
  next
    case False
    with assms Pair saved
    have "g' = g\<lparr>g_state := GAME_OVER, g_player := (g_player g)\<lparr>p_alive := False\<rparr>,
            g_disk := dk, g_high_score := g_high_score g\<rparr>"
      by (auto simp: Game_game_over_def Let_def)
    with Pair saved show ?thesis by (intro that[where dk = dk and hs = "g_high_score g" and saved = saved]) simp_all
  qed
qed

lemma Game_game_over_state:
  assumes "Game_game_over g = Inr g'"
  shows "g_state g' = GAME_OVER" and "g_player g' = (g_player g)\<lparr>p_alive := False\<rparr>"
  using assms by (rule Game_game_over_shape; simp)+

lemma update_playing_cases:
  assumes "update_playing d g = Inr g'"
  obtains
    (floor) i lv g2 where "select_level (g_levels g) (g_score g) = Inr (i, lv)"
      "g2 = player_physics lv (g\<lparr>g_level_idx := i\<rparr>)"
      "\<not> p_alive (g_player g2)" "Game_game_over g2 = Inr g'"
  | (wall) i lv g2 g4 b g5 where "select_level (g_levels g) (g_score g) = Inr (i, lv)"
      "g2 = player_physics lv (g\<lparr>g_level_idx := i\<rparr>)" "p_alive (g_player g2)"
      "wall_spawning lv d (background_parallax lv g2) = Inr (g4, b)"
      "wall_update g4 = (g5, True)" "Game_game_over g5 = Inr g'"
  | (enemy) i lv g2 g4 b g5 g6 g7 where "select_level (g_levels g) (g_score g) = Inr (i, lv)"
      "g2 = player_physics lv (g\<lparr>g_level_idx := i\<rparr>)" "p_alive (g_player g2)"
      "wall_spawning lv d (background_parallax lv g2) = Inr (g4, b)"
      "wall_update g4 = (g5, False)" "enemy_spawning lv d g5 = Inr g6"
      "enemy_update g6 = (g7, True)" "Game_game_over g7 = Inr g'"
  | (coins) i lv g2 g4 b g5 g6 g7 g8 where "select_level (g_levels g) (g_score g) = Inr (i, lv)"
      "g2 = player_physics lv (g\<lparr>g_level_idx := i\<rparr>)" "p_alive (g_player g2)"
      "wall_spawning lv d (background_parallax lv g2) = Inr (g4, b)"
      "wall_update g4 = (g5, False)" "enemy_spawning lv d g5 = Inr g6"
      "enemy_update g6 = (g7, False)" "coin_spawning lv d b g7 = Inr g8"
      "g' = coin_update lv g8"
  using assms
  unfolding update_playing_def Game_level_def Let_def
  by (auto split: sum.splits prod.splits if_splits)

lemma player_physics_shape:
  "player_physics lv g =
     g\<lparr>g_grace_frames := (if 0 < g_grace_frames g then g_grace_frames g - 1 else g_grace_frames g),
       g_player := Player_update (Some (get (lv_gravity lv) (3 / 10))) (0 < g_grace_frames g) (g_player g)\<rparr>"
  by (simp add: player_physics_def Let_def)

text \<open>What a PLAYING frame leaves of the player: the physics step, and perhaps the death flag.\<close>

lemma update_playing_frame:
  assumes "update_playing d g = Inr g'"
  shows "\<exists>i lv. select_level (g_levels g) (g_score g) = Inr (i, lv) \<and>
           (let P = Player_update (Some (get (lv_gravity lv) (3 / 10))) (0 < g_grace_frames g) (g_player g)
            in g_player g' = P \<or> g_player g' = P\<lparr>p_alive := False\<rparr>) \<and>
           g_grace_frames g' = (if 0 < g_grace_frames g then g_grace_frames g - 1 else g_grace_frames g) \<and>
           g_level_idx g' = i \<and> g_levels g' = g_levels g \<and>
           g_btn_start g' = g_btn_start g \<and> g_btn_restart g' = g_btn_restart g \<and>
           (g_state g' = g_state g \<or> g_state g' = GAME_OVER) \<and>
           (g_disk g' = g_disk g \<or>
            (\<exists>saved. save_highscore (PyInt (g_score g')) (g_disk g) = (g_disk g', Inr saved)))"
  using assms
proof (cases rule: update_playing_cases)
  case (floor i lv g2)
  from floor(4) obtain dk hs saved where
    "g' = g2\<lparr>g_state := GAME_OVER, g_player := (g_player g2)\<lparr>p_alive := False\<rparr>,
            g_disk := dk, g_high_score := hs\<rparr>"
    "save_highscore (PyInt (g_score g2)) (g_disk g2) = (dk, Inr saved)"
    by (rule Game_game_over_shape)
  with floor(1,2) show ?thesis by (auto simp: player_physics_shape Let_def)
next
  case (wall i lv g2 g4 b g5)
  from wall(4) obtain ws where "g4 = (background_parallax lv g2)\<lparr>g_walls := ws\<rparr>"
    by (rule wall_spawning_shape)
  moreover from wall(6) obtain dk hs saved where
    "g' = g5\<lparr>g_state := GAME_OVER, g_player := (g_player g5)\<lparr>p_alive := False\<rparr>,
            g_disk := dk, g_high_score := hs\<rparr>"
    "save_highscore (PyInt (g_score g5)) (g_disk g5) = (dk, Inr saved)"
    by (rule Game_game_over_shape)
  ultimately show ?thesis
    using wall(1,2) wall_update_shape[OF wall(5)]
    by (auto simp: player_physics_shape background_parallax_def Let_def)
next
  case (enemy i lv g2 g4 b g5 g6 g7)
  from enemy(4) obtain ws where "g4 = (background_parallax lv g2)\<lparr>g_walls := ws\<rparr>"
    by (rule wall_spawning_shape)
  moreover from enemy(6) obtain t es where "g6 = g5\<lparr>g_enemy_timer := t, g_enemies := es\<rparr>"
    by (rule enemy_spawning_shape)
  moreover from enemy(8) obtain dk hs saved where
    "g' = g7\<lparr>g_state := GAME_OVER, g_player := (g_player g7)\<lparr>p_alive := False\<rparr>,
            g_disk := dk, g_high_score := hs\<rparr>"
    "save_highscore (PyInt (g_score g7)) (g_disk g7) = (dk, Inr saved)"
    by (rule Game_game_over_shape)
  ultimately show ?thesis
    using enemy(1,2) wall_update_shape[OF enemy(5)] enemy_update_shape[OF enemy(7)]
    by (auto simp: player_physics_shape background_parallax_def Let_def)
next
  case (coins i lv g2 g4 b g5 g6 g7 g8)
  from coins(4) obtain ws where "g4 = (background_parallax lv g2)\<lparr>g_walls := ws\<rparr>"
    by (rule wall_spawning_shape)
  moreover from coins(6) obtain t es where "g6 = g5\<lparr>g_enemy_timer := t, g_enemies := es\<rparr>"
    by (rule enemy_spawning_shape)
  moreover from coins(8) obtain cs where "g8 = g7\<lparr>g_coins := cs\<rparr>"
    by (rule coin_spawning_shape)
  ultimately show ?thesis
    using coins wall_update_shape[OF coins(5)] enemy_update_shape[OF coins(7)]
    by (auto simp: coin_update_shape player_physics_shape background_parallax_def Let_def)
qed

subsection \<open>The loops\<close>

lemma wall_pass_inc:
  "snd (wall_pass px w) =
     (if \<not> w_scored w \<and> w_x w - w_speed w + real_of_int WALL_WIDTH < real_of_int px then 1 else 0)"
  by (simp add: wall_pass_def WallPair_update_def Let_def)

lemma wall_pass_scored:
  "w_scored (fst (wall_pass px w)) \<longleftrightarrow>
     w_scored w \<or> w_x w - w_speed w + real_of_int WALL_WIDTH < real_of_int px"
  by (simp add: wall_pass_def WallPair_update_def Let_def)

lemma wall_pass_collides:
  "WallPair_collides (fst (wall_pass px w)) r = WallPair_collides (WallPair_update w) r"
  by (simp add: wall_pass_def Let_def WallPair_collides_def WallPair_top_rect_def
      WallPair_bot_rect_def)

lemma wall_pass_off_screen:
  "WallPair_off_screen (fst (wall_pass px w)) = WallPair_off_screen (WallPair_update w)"
  by (simp add: wall_pass_def Let_def WallPair_off_screen_def)

lemma scored_stays:
  "w_scored w \<Longrightarrow> w_scored (frames px n w)"
  by (induction n) (simp_all add: wall_pass_scored)

lemma score_total:
  "(\<Sum>k<n. snd (wall_pass px (frames px k w))) =
     (if \<not> w_scored w \<and> w_scored (frames px n w) then 1 else 0)"
proof (induction n)
  case 0
  then show ?case by simp
next
  case (Suc n)
  show ?case
  proof (cases "w_scored (frames px n w)")
    case True
    then have "snd (wall_pass px (frames px n w)) = 0" by (simp add: wall_pass_inc)
    with Suc True show ?thesis by (simp add: wall_pass_scored)
  next
    case False
    with Suc have "(\<Sum>k<n. snd (wall_pass px (frames px k w))) = 0" by simp
    moreover from False have "\<not> w_scored w" using scored_stays by blast
    ultimately show ?thesis using False
      by (simp add: wall_pass_inc wall_pass_scored)
  qed
qed

lemma walls_loop_hit:
  "snd (snd (walls_loop ws p sc)) \<longleftrightarrow>
     (\<exists>w \<in> set ws. WallPair_collides (WallPair_update w) (Player_rect p))"
  by (induction ws arbitrary: sc)
     (simp_all add: Let_def case_prod_beta wall_pass_collides)

lemma walls_loop_score:
  "fst (snd (walls_loop ws p sc)) =
     sc + (\<Sum>w\<leftarrow>take (Suc (length (takeWhile
              (\<lambda>w. \<not> WallPair_collides (WallPair_update w) (Player_rect p)) ws))) ws.
            snd (wall_pass (p_x p) w))"
  by (induction ws arbitrary: sc)
     (simp_all add: Let_def case_prod_beta wall_pass_collides)

lemma walls_loop_walls:
  "\<not> snd (snd (walls_loop ws p sc)) \<Longrightarrow>
     fst (walls_loop ws p sc) =
       filter (\<lambda>w. \<not> WallPair_off_screen w) (map (\<lambda>w. fst (wall_pass (p_x p) w)) ws)"
  by (induction ws arbitrary: sc)
     (auto simp: Let_def case_prod_beta split: if_splits)

lemma coins_loop_eq:
  "coins_loop cs p v n =
     (filter (\<lambda>c. \<not> Coin_collides c (Player_rect p) \<and> \<not> Coin_off_screen c) (map Coin_update cs),
      n + v * int (length (filter (\<lambda>c. Coin_collides c (Player_rect p)) (map Coin_update cs))))"
  by (induction cs arbitrary: n) (simp_all add: Let_def case_prod_beta algebra_simps)

lemma enemies_loop_hit:
  "snd (enemies_loop es p) \<longleftrightarrow>
     (\<exists>e \<in> set es. Enemy_collides (Enemy_update e) (Player_rect p))"
  by (induction es) (simp_all add: Let_def case_prod_beta)

lemma colliderect_share_point:
  assumes "0 \<le> aw" "0 \<le> ah" "0 \<le> bw" "0 \<le> bh"
  shows "colliderect (ax, ay, aw, ah) (bx, by, bw, bh) \<longleftrightarrow>
           (\<exists>px py. collidepoint (ax, ay, aw, ah) (px, py) \<and> collidepoint (bx, by, bw, bh) (px, py))"
proof
  assume c: "colliderect (ax, ay, aw, ah) (bx, by, bw, bh)"
  with assms have "collidepoint (ax, ay, aw, ah) (max ax bx, max ay by) \<and>
        collidepoint (bx, by, bw, bh) (max ax bx, max ay by)"
    by (auto split: if_splits)
  then show "\<exists>px py. collidepoint (ax, ay, aw, ah) (px, py) \<and> collidepoint (bx, by, bw, bh) (px, py)"
    by blast
next
  assume "\<exists>px py. collidepoint (ax, ay, aw, ah) (px, py) \<and> collidepoint (bx, by, bw, bh) (px, py)"
  then show "colliderect (ax, ay, aw, ah) (bx, by, bw, bh)"
    using assms by auto
qed

subsection \<open>A frame that does not end the round\<close>

lemma update_playing_survives:
  assumes "update_playing d g = Inr g'" and "g_state g' \<noteq> GAME_OVER"
  obtains i lv ws es t cs where
    "select_level (g_levels g) (g_score g) = Inr (i, lv)"
    "ws = g_walls g \<or> (\<exists>w. ws = g_walls g @ [w])"
    "cs = g_coins g \<or> (\<exists>c. cs = g_coins g @ [c])"
    "g' = (player_physics lv (g\<lparr>g_level_idx := i\<rparr>))
          \<lparr>g_bg_x := scroll (g_bg_x g) (get (lv_wall_speed lv) 2 * (25 / 100)),
            g_walls := filter (\<lambda>w. \<not> WallPair_off_screen w)
                         (map (\<lambda>w. fst (wall_pass (p_x (g_player g)) w)) ws),
            g_score := g_score g + (\<Sum>w\<leftarrow>ws. snd (wall_pass (p_x (g_player g)) w)),
            g_enemy_timer := t, g_enemies := es,
            g_coins := filter (\<lambda>c. \<not> Coin_collides c (Player_rect (g_player g')) \<and> \<not> Coin_off_screen c)
                         (map Coin_update cs),
            g_coins_collected := g_coins_collected g + get (lv_coin_value lv) 1 *
               int (length (filter (\<lambda>c. Coin_collides c (Player_rect (g_player g'))) (map Coin_update cs)))\<rparr>"
    "\<forall>w \<in> set ws. \<not> WallPair_collides (WallPair_update w) (Player_rect (g_player g'))"
  using assms(1)
proof (cases rule: update_playing_cases)
  case (floor i lv g2)
  with assms(2) show ?thesis by (simp add: Game_game_over_state)
next
  case (wall i lv g2 g4 b g5)
  with assms(2) show ?thesis by (simp add: Game_game_over_state)
next
  case (enemy i lv g2 g4 b g5 g6 g7)
  with assms(2) show ?thesis by (simp add: Game_game_over_state)
next
  case (coins i lv g2 g4 b g5 g6 g7 g8)
  have px: "p_x (g_player g2) = p_x (g_player g)"
    by (simp add: coins(2) player_physics_shape Player_update_def Let_def)
  from coins(4) obtain ws where g4: "g4 = (background_parallax lv g2)\<lparr>g_walls := ws\<rparr>"
    and ws: "if b then \<exists>w gap_size speed.
                 WallPair_init (SCREEN_WIDTH + 40) gap_size speed None (d_gap d) = Inr w \<and>
                 ws = g_walls (background_parallax lv g2) @ [w]
             else ws = g_walls (background_parallax lv g2)"
    by (rule wall_spawning_shape)
  from coins(6) obtain t es where g6: "g6 = g5\<lparr>g_enemy_timer := t, g_enemies := es\<rparr>"
    by (rule enemy_spawning_shape)
  from coins(8) obtain cs where g8: "g8 = g7\<lparr>g_coins := cs\<rparr>"
    and cs: "cs = g_coins g7 \<or> (\<exists>c. b \<and> cs = g_coins g7 @ [c])"
    by (rule coin_spawning_shape)
  note g5 = wall_update_shape[OF coins(5)]
  note g7 = enemy_update_shape[OF coins(7)]
  have nohit: "\<not> snd (snd (walls_loop ws (g_player g2) (g_score g2)))"
    using g5 g4 by (simp add: background_parallax_def)
  have pl: "g_player g' = g_player g2"
    by (simp add: coins(9) coin_update_shape g8 g7 g6 g5 g4 background_parallax_def)
  have ws': "ws = g_walls g \<or> (\<exists>w. ws = g_walls g @ [w])"
    using ws by (auto simp: background_parallax_def coins(2) player_physics_shape split: if_splits)
  have cs': "cs = g_coins g \<or> (\<exists>c. cs = g_coins g @ [c])"
    using cs by (auto simp: g7 g6 g5 g4 background_parallax_def coins(2) player_physics_shape)
  have sc: "fst (snd (walls_loop ws (g_player g2) (g_score g2))) =
      g_score g + (\<Sum>w\<leftarrow>ws. snd (wall_pass (p_x (g_player g)) w))"
  proof -
    from nohit have "\<forall>w \<in> set ws. \<not> WallPair_collides (WallPair_update w) (Player_rect (g_player g2))"
      by (simp add: walls_loop_hit)
    then have tw: "takeWhile (\<lambda>w. \<not> WallPair_collides (WallPair_update w) (Player_rect (g_player g2))) ws = ws"
      by (simp add: takeWhile_eq_all_conv)
    have "fst (snd (walls_loop ws (g_player g2) (g_score g2))) =
        g_score g2 + (\<Sum>w\<leftarrow>ws. snd (wall_pass (p_x (g_player g2)) w))"
      by (simp only: walls_loop_score tw) simp
    moreover have "g_score g2 = g_score g"
      by (simp add: coins(2) player_physics_shape)
    ultimately show ?thesis by (simp only: px)
  qed
  have eq: "g' = (player_physics lv (g\<lparr>g_level_idx := i\<rparr>))
          \<lparr>g_bg_x := scroll (g_bg_x g) (get (lv_wall_speed lv) 2 * (25 / 100)),
            g_walls := filter (\<lambda>w. \<not> WallPair_off_screen w)
                         (map (\<lambda>w. fst (wall_pass (p_x (g_player g)) w)) ws),
            g_score := g_score g + (\<Sum>w\<leftarrow>ws. snd (wall_pass (p_x (g_player g)) w)),
            g_enemy_timer := t, g_enemies := fst (enemies_loop es (g_player g2)),
            g_coins := filter (\<lambda>c. \<not> Coin_collides c (Player_rect (g_player g')) \<and> \<not> Coin_off_screen c)
                         (map Coin_update cs),
            g_coins_collected := g_coins_collected g + get (lv_coin_value lv) 1 *
               int (length (filter (\<lambda>c. Coin_collides c (Player_rect (g_player g'))) (map Coin_update cs)))\<rparr>"
    unfolding pl
    apply (simp add: coins(9) coin_update_shape coins_loop_eq g8 g7 g6)
    apply (simp add: g5 g4 background_parallax_def walls_loop_walls[OF nohit] sc px)
    apply (simp add: coins(2) player_physics_shape)
    done
  have "\<forall>w \<in> set ws. \<not> WallPair_collides (WallPair_update w) (Player_rect (g_player g'))"
    using nohit by (simp add: walls_loop_hit pl)
  with coins(1) ws' cs' eq show ?thesis by (rule that)
qed

lemma update_playing_wall_hit:
  assumes "update_playing d g = Inr g'"
    and "select_level (g_levels g) (g_score g) = Inr (i, lv)"
    and "w \<in> set (g_walls g)"
    and "WallPair_collides (WallPair_update w)
           (Player_rect (Player_update (Some (get (lv_gravity lv) (3 / 10))) (0 < g_grace_frames g) (g_player g)))"
  shows "g_state g' = GAME_OVER"
proof (rule ccontr)
  assume "g_state g' \<noteq> GAME_OVER"
  with assms(1) obtain i' lv' ws es t cs where
    sel: "select_level (g_levels g) (g_score g) = Inr (i', lv')"
    and ws: "ws = g_walls g \<or> (\<exists>w. ws = g_walls g @ [w])"
    and g': "g' = (player_physics lv' (g\<lparr>g_level_idx := i'\<rparr>))
          \<lparr>g_bg_x := scroll (g_bg_x g) (get (lv_wall_speed lv') 2 * (25 / 100)),
            g_walls := filter (\<lambda>w. \<not> WallPair_off_screen w)
                         (map (\<lambda>w. fst (wall_pass (p_x (g_player g)) w)) ws),
            g_score := g_score g + (\<Sum>w\<leftarrow>ws. snd (wall_pass (p_x (g_player g)) w)),
            g_enemy_timer := t, g_enemies := es,
            g_coins := filter (\<lambda>c. \<not> Coin_collides c (Player_rect (g_player g')) \<and> \<not> Coin_off_screen c)
                         (map Coin_update cs),
            g_coins_collected := g_coins_collected g + get (lv_coin_value lv') 1 *
               int (length (filter (\<lambda>c. Coin_collides c (Player_rect (g_player g'))) (map Coin_update cs)))\<rparr>"
    and nohit: "\<forall>w \<in> set ws. \<not> WallPair_collides (WallPair_update w) (Player_rect (g_player g'))"
    by (rule update_playing_survives)
  from sel assms(2) have "lv' = lv" by simp
  have "g_player g' = Player_update (Some (get (lv_gravity lv) (3 / 10))) (0 < g_grace_frames g) (g_player g)"
    by (subst g') (simp add: player_physics_shape \<open>lv' = lv\<close>)
  moreover from ws assms(3) have "w \<in> set ws" by auto
  ultimately show False using nohit assms(4) by auto
qed

lemma update_playing_alive:
  assumes "update_playing d g = Inr g'" and "g_state g' \<noteq> GAME_OVER"
  shows "p_alive (g_player g')"
  using assms(1)
proof (cases rule: update_playing_cases)
  case (floor i lv g2)
  with assms(2) show ?thesis by (simp add: Game_game_over_state)
next
  case (wall i lv g2 g4 b g5)
  with assms(2) show ?thesis by (simp add: Game_game_over_state)
next
  case (enemy i lv g2 g4 b g5 g6 g7)
  with assms(2) show ?thesis by (simp add: Game_game_over_state)
next
  case (coins i lv g2 g4 b g5 g6 g7 g8)
  from coins(4) obtain ws where "g4 = (background_parallax lv g2)\<lparr>g_walls := ws\<rparr>"
    by (rule wall_spawning_shape)
  moreover from coins(6) obtain t es where "g6 = g5\<lparr>g_enemy_timer := t, g_enemies := es\<rparr>"
    by (rule enemy_spawning_shape)
  moreover from coins(8) obtain cs where "g8 = g7\<lparr>g_coins := cs\<rparr>"
    by (rule coin_spawning_shape)
  ultimately have "g_player g' = g_player g2"
    using wall_update_shape[OF coins(5)] enemy_update_shape[OF coins(7)]
    by (simp add: coins(9) coin_update_shape background_parallax_def)
  with coins(3) show ?thesis by simp
qed

text \<open>
  A frame ends the round only through the floor, a wall pair or an enemy; the wall pair and
  the enemy are among those of the game or have been spawned in this frame.
\<close>

lemma update_playing_game_over_only:
  assumes "update_playing d g = Inr g'" and "g_state g = PLAYING" and "g_state g' = GAME_OVER"
    and "select_level (g_levels g) (g_score g) = Inr (i, lv)"
  shows "\<not> p_alive (Player_update (Some (get (lv_gravity lv) (3 / 10))) (0 < g_grace_frames g) (g_player g)) \<or>
         (\<exists>w. (w \<in> set (g_walls g) \<or>
                (\<exists>gap_size speed.
                   WallPair_init (SCREEN_WIDTH + 40) gap_size speed None (d_gap d) = Inr w)) \<and>
              WallPair_collides (WallPair_update w)
                (Player_rect (Player_update (Some (get (lv_gravity lv) (3 / 10))) (0 < g_grace_frames g) (g_player g)))) \<or>
         (\<exists>e. (e \<in> set (g_enemies g) \<or>
                (\<exists>speed. Enemy_init speed (d_enemy_x d) (d_enemy_y d) (d_enemy_wave_t d)
                            (d_enemy_amp d) (d_enemy_wave_spd d) = Inr e)) \<and>
              Enemy_collides (Enemy_update e)
                (Player_rect (Player_update (Some (get (lv_gravity lv) (3 / 10))) (0 < g_grace_frames g) (g_player g))))"
  using assms(1)
proof (cases rule: update_playing_cases)
  case (floor i' lv' g2)
  with assms(4) show ?thesis by (simp add: player_physics_shape)
next
  case (wall i' lv' g2 g4 b g5)
  from wall(4) obtain ws where g4: "g4 = (background_parallax lv' g2)\<lparr>g_walls := ws\<rparr>"
    and ws: "if b then \<exists>w gap_size speed.
                 WallPair_init (SCREEN_WIDTH + 40) gap_size speed None (d_gap d) = Inr w \<and>
                 ws = g_walls (background_parallax lv' g2) @ [w]
             else ws = g_walls (background_parallax lv' g2)"
    by (rule wall_spawning_shape)
  from wall_update_shape[OF wall(5)] have "snd (snd (walls_loop (g_walls g4) (g_player g4) (g_score g4)))"
    by simp
  then obtain w where w: "w \<in> set ws" "WallPair_collides (WallPair_update w) (Player_rect (g_player g4))"
    by (auto simp: walls_loop_hit g4)
  have "g_walls (background_parallax lv' g2) = g_walls g"
    by (simp add: background_parallax_def wall(2) player_physics_shape)
  with ws w(1) have "w \<in> set (g_walls g) \<or>
      (\<exists>gap_size speed. WallPair_init (SCREEN_WIDTH + 40) gap_size speed None (d_gap d) = Inr w)"
    by (auto split: if_splits)
  moreover have "g_player g4 = Player_update (Some (get (lv_gravity lv) (3 / 10))) (0 < g_grace_frames g) (g_player g)"
    using wall(1,2) assms(4) by (simp add: g4 background_parallax_def player_physics_shape)
  ultimately show ?thesis using w(2) by auto
next
  case (enemy i' lv' g2 g4 b g5 g6 g7)
  from enemy(4) obtain ws where g4: "g4 = (background_parallax lv' g2)\<lparr>g_walls := ws\<rparr>"
    by (rule wall_spawning_shape)
  from enemy(6) obtain t es where g6: "g6 = g5\<lparr>g_enemy_timer := t, g_enemies := es\<rparr>"
    and es: "es = g_enemies g5 \<or>
     (\<exists>e speed. Enemy_init speed (d_enemy_x d) (d_enemy_y d) (d_enemy_wave_t d)
                   (d_enemy_amp d) (d_enemy_wave_spd d) = Inr e \<and>
                 es = g_enemies g5 @ [e])"
    by (rule enemy_spawning_shape)
  from enemy_update_shape[OF enemy(7)] have "snd (enemies_loop (g_enemies g6) (g_player g6))"
    by simp
  then obtain e where e: "e \<in> set es" "Enemy_collides (Enemy_update e) (Player_rect (g_player g6))"
    by (auto simp: enemies_loop_hit g6)
  have "g_enemies g5 = g_enemies g"
    using wall_update_shape[OF enemy(5)]
    by (simp add: g4 background_parallax_def enemy(2) player_physics_shape)
  with es e(1) have "e \<in> set (g_enemies g) \<or>
      (\<exists>speed. Enemy_init speed (d_enemy_x d) (d_enemy_y d) (d_enemy_wave_t d)
                  (d_enemy_amp d) (d_enemy_wave_spd d) = Inr e)"
    by auto
  moreover have "g_player g6 = Player_update (Some (get (lv_gravity lv) (3 / 10))) (0 < g_grace_frames g) (g_player g)"
    using enemy(1,2) assms(4) wall_update_shape[OF enemy(5)]
    by (simp add: g6 g4 background_parallax_def player_physics_shape)
  ultimately show ?thesis using e(2) by auto
next
  case (coins i' lv' g2 g4 b g5 g6 g7 g8)
  from coins(4) obtain ws where "g4 = (background_parallax lv' g2)\<lparr>g_walls := ws\<rparr>"
    by (rule wall_spawning_shape)
  moreover from coins(6) obtain t es where "g6 = g5\<lparr>g_enemy_timer := t, g_enemies := es\<rparr>"
    by (rule enemy_spawning_shape)
  moreover from coins(8) obtain cs where "g8 = g7\<lparr>g_coins := cs\<rparr>"
    by (rule coin_spawning_shape)
  ultimately have "g_state g' = g_state g"
    using wall_update_shape[OF coins(5)] enemy_update_shape[OF coins(7)]
    by (simp add: coins(2,9) coin_update_shape background_parallax_def player_physics_shape)
  with assms(2,3) show ?thesis by simp
qed

subsection \<open>Player physics\<close>

lemma Player_update_alive:
  "p_alive (Player_update gravity grace p) \<longleftrightarrow>
     p_alive p \<and>
     \<not> real_of_int (SCREEN_HEIGHT - PLAYER_H)
         < p_y p + (if grace then 0
                    else min (p_vel p + (case gravity of Some g \<Rightarrow> g | None \<Rightarrow> p_gravity p))
                             (p_max_fall p))"
  by (auto simp: Player_update_def Let_def sizes split: option.splits)

lemma Player_update_range:
  "0 \<le> p_y (Player_update gravity grace p) \<and>
   p_y (Player_update gravity grace p) \<le> real_of_int (SCREEN_HEIGHT - PLAYER_H)"
  by (auto simp: Player_update_def Let_def sizes split: option.splits)

lemma Player_update_floor:
  assumes "real_of_int (SCREEN_HEIGHT - PLAYER_H)
         < p_y p + (if grace then 0
                    else min (p_vel p + (case gravity of Some g \<Rightarrow> g | None \<Rightarrow> p_gravity p))
                             (p_max_fall p))"
  shows "p_y (Player_update gravity grace p) = real_of_int (SCREEN_HEIGHT - PLAYER_H) \<and>
         \<not> p_alive (Player_update gravity grace p)"
  using assms by (auto simp: Player_update_def Let_def sizes split: option.splits)

lemma update_playing_floor_death:
  assumes "update_playing d g = Inr g'"
    and "select_level (g_levels g) (g_score g) = Inr (i, lv)"
    and "\<not> p_alive (Player_update (Some (get (lv_gravity lv) (3 / 10))) (0 < g_grace_frames g) (g_player g))"
  shows "Game_game_over (player_physics lv (g\<lparr>g_level_idx := i\<rparr>)) = Inr g'"
  using assms(1)
  by (cases rule: update_playing_cases) (use assms(2,3) in \<open>auto simp: player_physics_shape\<close>)

lemma Player_update_vel:
  "p_vel (Player_update (Some gr) False p) =
     (let v = min (p_vel p + gr) (p_max_fall p) in if p_y p + v < 0 then 0 else v)"
  by (simp add: Player_update_def Let_def)

section \<open>Sample frames\<close>

text \<open>
  Concrete frames, evaluated. In a freshly started round the player hovers at height 265
  during the grace period, so a player placed at height \<open>y\<close> is still there after the frame.
\<close>

lemma fresh_frame:
  "\<exists>g'. Game_update (0, 0) quiet_draws fresh_round = Inr g' \<and> g_state g' = PLAYING \<and>
     g_grace_frames g' = 49 \<and> g_score g' = 0 \<and> length (g_walls g') = 1"
  by (simp add: eval_defs)

lemma example_frame:
  "\<exists>g'. Game_update (0, 0) quiet_draws
           (fresh_round\<lparr>g_player := (g_player fresh_round)\<lparr>p_y := 300\<rparr>,
                         g_walls := [sample_wall 152]\<rparr>) = Inr g' \<and>
         g_state g' = PLAYING \<and> Player_rect (g_player g') = (158, 308, 54, 54) \<and>
         WallPair_top_rect (hd (g_walls g')) = (150, 0, 72, 280)"
  by (simp add: eval_defs)

lemma hit_frame:
  "\<exists>g'. Game_update (0, 0) quiet_draws
           (fresh_round\<lparr>g_player := (g_player fresh_round)\<lparr>p_y := 200\<rparr>,
                         g_walls := [sample_wall 152]\<rparr>) = Inr g' \<and>
         g_state g' = GAME_OVER \<and> Player_rect (g_player g') = (158, 208, 54, 54) \<and>
         WallPair_top_rect (hd (g_walls g')) = (150, 0, 72, 280)"
  by (simp add: eval_defs)

lemma floor_frame:
  "\<exists>g'. Game_update (0, 0) quiet_draws
           (fresh_round\<lparr>g_grace_frames := 0,
                         g_player := (g_player fresh_round)\<lparr>p_y := 528, p_vel := 13 / 2\<rparr>\<rparr>) = Inr g' \<and>
         g_state g' = GAME_OVER \<and> \<not> p_alive (g_player g') \<and> p_y (g_player g') = 530"
  by (simp add: eval_defs)

lemma pass_frame:
  "\<exists>g'. Game_update (0, 0) quiet_draws (fresh_round\<lparr>g_walls := [sample_wall 79]\<rparr>) = Inr g' \<and>
         g_state g' = PLAYING \<and> g_score g' = 1 \<and> length (g_walls g') = 2 \<and>
         w_scored (hd (g_walls g')) \<and> w_x (hd (g_walls g')) = 77"
  by (simp add: eval_defs)

lemma coin_frame:
  "\<exists>g'. Game_update (0, 0) quiet_draws
           (fresh_round\<lparr>g_coins := [\<lparr> c_x = 172, c_base_y = 280, c_y = 280, c_speed = 2,
                                       c_bob_t = pi - 2 / 25 \<rparr>]\<rparr>) = Inr g' \<and>
         g_state g' = PLAYING \<and> g_coins g' = [] \<and> g_coins_collected g' = 1"
  by (simp add: eval_defs)

section \<open>Collision\<close>

text \<open>
  Claim C2, as amended. A collision is detected when and only when the hit-boxes overlap:
  for rectangles of non-negative size \<open>colliderect\<close> holds exactly when the two rectangles
  share a point, and a wall pair collides exactly when its top body or its bottom body does.
  In the worked example the obstacle body (150, 0, 72, 280) and the hit-box of a player at
  x = 150 overlap exactly when the truncated player height lies strictly between -62 and 272,
  that is when the hit-box begins above 280; at height 300 the hit-box (158, 308, 54, 54)
  lies below the body and there is no collision. A \<open>PLAYING\<close> frame that returns, and in
  which an existing wall pair, once moved, collides with the hit-box of the player, once
  moved, ends in \<open>GAME_OVER\<close>; and a \<open>PLAYING\<close> frame ends in \<open>GAME_OVER\<close> only when the
  player has fallen to the floor or a wall pair or an enemy of the game, or one spawned in
  this frame, collides with that hit-box.
\<close>

theorem C2_collision_iff_overlap:
  "(0 \<le> aw \<and> 0 \<le> ah \<and> 0 \<le> bw \<and> 0 \<le> bh \<longrightarrow>
      (colliderect (ax, ay, aw, ah) (bx, by, bw, bh) \<longleftrightarrow>
         (\<exists>px py. collidepoint (ax, ay, aw, ah) (px, py) \<and>
                   collidepoint (bx, by, bw, bh) (px, py)))) \<and>
   (WallPair_collides w (Player_rect p) \<longleftrightarrow>
      colliderect (WallPair_top_rect w) (Player_rect p) \<or>
      colliderect (WallPair_bot_rect w) (Player_rect p)) \<and>
   (p_x p = 150 \<longrightarrow>
      (colliderect (150, 0, 72, 280) (Player_rect p) \<longleftrightarrow>
         - 62 < py_int (p_y p) \<and> py_int (p_y p) < 272)) \<and>
   (g_state g = PLAYING \<and> Game_update mouse_pos d g = Inr g' \<and>
    select_level (g_levels g) (g_score g) = Inr (i, lv) \<and>
    w \<in> set (g_walls g) \<and>
    WallPair_collides (WallPair_update w)
      (Player_rect (Player_update (Some (get (lv_gravity lv) (3 / 10)))
                      (0 < g_grace_frames g) (g_player g)))
    \<longrightarrow> g_state g' = GAME_OVER) \<and>
   (g_state g = PLAYING \<and> Game_update mouse_pos d g = Inr g' \<and>
    select_level (g_levels g) (g_score g) = Inr (i, lv) \<and> g_state g' = GAME_OVER
    \<longrightarrow> \<not> p_alive (Player_update (Some (get (lv_gravity lv) (3 / 10)))
                       (0 < g_grace_frames g) (g_player g)) \<or>
        (\<exists>w'. (w' \<in> set (g_walls g) \<or>
                (\<exists>gap_size speed.
                   WallPair_init (SCREEN_WIDTH + 40) gap_size speed None (d_gap d) = Inr w')) \<and>
           WallPair_collides (WallPair_update w')
             (Player_rect (Player_update (Some (get (lv_gravity lv) (3 / 10)))
                             (0 < g_grace_frames g) (g_player g)))) \<or>
        (\<exists>e. (e \<in> set (g_enemies g) \<or>
                (\<exists>speed. Enemy_init speed (d_enemy_x d) (d_enemy_y d) (d_enemy_wave_t d)
                            (d_enemy_amp d) (d_enemy_wave_spd d) = Inr e)) \<and>
           Enemy_collides (Enemy_update e)
             (Player_rect (Player_update (Some (get (lv_gravity lv) (3 / 10)))
                             (0 < g_grace_frames g) (g_player g)))))"
proof -
  have only_when: "\<not> p_alive (Player_update (Some (get (lv_gravity lv) (3 / 10)))
                       (0 < g_grace_frames g) (g_player g)) \<or>
        (\<exists>w'. (w' \<in> set (g_walls g) \<or>
                (\<exists>gap_size speed.
                   WallPair_init (SCREEN_WIDTH + 40) gap_size speed None (d_gap d) = Inr w')) \<and>
           WallPair_collides (WallPair_update w')
             (Player_rect (Player_update (Some (get (lv_gravity lv) (3 / 10)))
                             (0 < g_grace_frames g) (g_player g)))) \<or>
        (\<exists>e. (e \<in> set (g_enemies g) \<or>
                (\<exists>speed. Enemy_init speed (d_enemy_x d) (d_enemy_y d) (d_enemy_wave_t d)
                            (d_enemy_amp d) (d_enemy_wave_spd d) = Inr e)) \<and>
           Enemy_collides (Enemy_update e)
             (Player_rect (Player_update (Some (get (lv_gravity lv) (3 / 10)))
                             (0 < g_grace_frames g) (g_player g))))"
    if "g_state g = PLAYING" "Game_update mouse_pos d g = Inr g'"
      "select_level (g_levels g) (g_score g) = Inr (i, lv)" "g_state g' = GAME_OVER"
  proof -
    from that(1,2) have "update_playing d g = Inr g'" by (simp add: Game_update_def)
    from update_playing_game_over_only[OF this that(1,4,3)] show ?thesis .
  qed
  have example: "colliderect (150, 0, 72, 280) (Player_rect p) \<longleftrightarrow>
      - 62 < py_int (p_y p) \<and> py_int (p_y p) < 272" if "p_x p = 150"
    using that by (auto simp: Player_rect_def sizes)
  have frame: "g_state g' = GAME_OVER"
    if "g_state g = PLAYING" "Game_update mouse_pos d g = Inr g'"
      "select_level (g_levels g) (g_score g) = Inr (i, lv)" "w \<in> set (g_walls g)"
      "WallPair_collides (WallPair_update w)
         (Player_rect (Player_update (Some (get (lv_gravity lv) (3 / 10)))
                         (0 < g_grace_frames g) (g_player g)))"
  proof -
    from that(1,2) have "update_playing d g = Inr g'" by (simp add: Game_update_def)
    from update_playing_wall_hit[OF this that(3,4,5)] show ?thesis .
  qed
  have walls: "WallPair_collides w (Player_rect p) \<longleftrightarrow>
      colliderect (WallPair_top_rect w) (Player_rect p) \<or>
      colliderect (WallPair_bot_rect w) (Player_rect p)"
    by (simp add: WallPair_collides_def)
  show ?thesis
    using colliderect_share_point[of aw ah bw bh ax ay bx "by"] walls example frame only_when
    by blast
qed

theorem C2_collision_iff_overlap_witness:
  "p_x (Player_init\<lparr>p_y := 200\<rparr>) = 150 \<and>
   Player_rect (Player_init\<lparr>p_y := 200\<rparr>) = (158, 208, 54, 54) \<and>
   colliderect (150, 0, 72, 280) (158, 208, 54, 54) \<and>
   collidepoint (150, 0, 72, 280) (158, 208) \<and> collidepoint (158, 208, 54, 54) (158, 208) \<and>
   (\<exists>g'. Game_update (0, 0) quiet_draws
            (fresh_round\<lparr>g_player := (g_player fresh_round)\<lparr>p_y := 200\<rparr>,
                          g_walls := [sample_wall 152]\<rparr>) = Inr g' \<and>
          g_state g' = GAME_OVER)"
proof -
  let ?g = "fresh_round\<lparr>g_player := (g_player fresh_round)\<lparr>p_y := 200\<rparr>,
                         g_walls := [sample_wall 152]\<rparr>"
  from hit_frame obtain g' where g': "Game_update (0, 0) quiet_draws ?g = Inr g'" by blast
  have "g_state g' = GAME_OVER"
    using C2_collision_iff_overlap[where g = ?g and g' = g' and mouse_pos = "(0, 0)"
        and d = quiet_draws and i = 0 and lv = empty_level and w = "sample_wall 152"] g'
    by (simp add: eval_defs)
  with g' show ?thesis by (auto simp: Player_init_def Player_rect_def py_int_def sizes)
qed

text \<open>
  The worked example as the claim states it: the hit-box (158, 308, 54, 54) of a player at
  height 300 and the body (150, 0, 72, 280) do not overlap, and a frame with exactly these
  two rectangles stays in \<open>PLAYING\<close>.
\<close>

theorem C2_counterexample:
  "Player_rect (Player_init\<lparr>p_y := 300\<rparr>) = (150 + 8, 300 + 8, 54, 54) \<and>
   \<not> colliderect (150, 0, 72, 280) (150 + 8, 300 + 8, 54, 54) \<and>
   (case Game_update (0, 0) quiet_draws
           (fresh_round\<lparr>g_player := (g_player fresh_round)\<lparr>p_y := 300\<rparr>,
                         g_walls := [sample_wall 152]\<rparr>) of
      Inl e \<Rightarrow> False
    | Inr g' \<Rightarrow> Player_rect (g_player g') = (158, 308, 54, 54) \<and>
                WallPair_top_rect (hd (g_walls g')) = (150, 0, 72, 280) \<and>
                g_state g' = PLAYING)"
  by (simp add: eval_defs)

section \<open>The player stays on the screen\<close>

text \<open>
  Claim C3. After \<open>Player.update\<close>, whatever the player was before, the height lies in
  \<open>[0, SCREEN_HEIGHT - PLAYER_H]\<close>. A step whose integrated height exceeds the floor bound
  puts the player on the floor and clears \<open>alive\<close>. The death happens once per life: the
  update never sets \<open>alive\<close> again and clears it only on such a step; the frame in which the
  physics step kills the player ends in \<open>GAME_OVER\<close> with the player on the floor; a frame
  after which the round goes on leaves the player alive; and a \<open>GAME_OVER\<close> frame leaves the
  player and the state as they are, so no further physics step runs until a restart.
\<close>

theorem C3_player_stays_on_screen:
  "0 \<le> p_y (Player_update gravity grace p) \<and>
   p_y (Player_update gravity grace p) \<le> real_of_int (SCREEN_HEIGHT - PLAYER_H) \<and>
   (real_of_int (SCREEN_HEIGHT - PLAYER_H)
      < p_y p + (if grace then 0
                 else min (p_vel p + (case gravity of Some g \<Rightarrow> g | None \<Rightarrow> p_gravity p))
                          (p_max_fall p))
    \<longrightarrow> p_y (Player_update gravity grace p) = real_of_int (SCREEN_HEIGHT - PLAYER_H) \<and>
        \<not> p_alive (Player_update gravity grace p)) \<and>
   (p_alive (Player_update gravity grace p) \<longleftrightarrow>
      p_alive p \<and>
      \<not> real_of_int (SCREEN_HEIGHT - PLAYER_H)
          < p_y p + (if grace then 0
                     else min (p_vel p + (case gravity of Some g \<Rightarrow> g | None \<Rightarrow> p_gravity p))
                              (p_max_fall p))) \<and>
   (g_state g = PLAYING \<and> Game_update mouse_pos d g = Inr g' \<and>
    select_level (g_levels g) (g_score g) = Inr (i, lv) \<and>
    \<not> p_alive (Player_update (Some (get (lv_gravity lv) (3 / 10))) (0 < g_grace_frames g) (g_player g))
    \<longrightarrow> g_state g' = GAME_OVER \<and> \<not> p_alive (g_player g') \<and>
        p_y (g_player g') = p_y (Player_update (Some (get (lv_gravity lv) (3 / 10))) (0 < g_grace_frames g) (g_player g))) \<and>
   (g_state g = PLAYING \<and> Game_update mouse_pos d g = Inr g' \<and> g_state g' = PLAYING
    \<longrightarrow> p_alive (g_player g')) \<and>
   (g_state g = GAME_OVER \<and> Game_update mouse_pos d g = Inr g'
    \<longrightarrow> g_state g' = GAME_OVER \<and> g_player g' = g_player g)"
proof -
  have goes_on: "p_alive (g_player g')"
    if "g_state g = PLAYING" "Game_update mouse_pos d g = Inr g'" "g_state g' = PLAYING"
  proof -
    from that(1,2) have "update_playing d g = Inr g'" by (simp add: Game_update_def)
    moreover from that(3) have "g_state g' \<noteq> GAME_OVER" by simp
    ultimately show ?thesis by (rule update_playing_alive)
  qed
  have playing: "g_state g' = GAME_OVER \<and> \<not> p_alive (g_player g') \<and>
        p_y (g_player g') = p_y (Player_update (Some (get (lv_gravity lv) (3 / 10))) (0 < g_grace_frames g) (g_player g))"
    if "g_state g = PLAYING" "Game_update mouse_pos d g = Inr g'"
      "select_level (g_levels g) (g_score g) = Inr (i, lv)"
      "\<not> p_alive (Player_update (Some (get (lv_gravity lv) (3 / 10))) (0 < g_grace_frames g) (g_player g))"
  proof -
    from that(1,2) have "update_playing d g = Inr g'" by (simp add: Game_update_def)
    from update_playing_floor_death[OF this that(3,4)] show ?thesis
      by (simp add: Game_game_over_state player_physics_shape)
  qed
  have over: "g_state g' = GAME_OVER \<and> g_player g' = g_player g"
    if "g_state g = GAME_OVER" "Game_update mouse_pos d g = Inr g'"
    using that by (auto simp: Game_update_def)
  show ?thesis
    using Player_update_range[of gravity grace p] Player_update_floor[of p grace gravity]
      Player_update_alive[of gravity grace p] playing goes_on over
    by blast
qed

theorem C3_player_stays_on_screen_witness:
  "real_of_int (SCREEN_HEIGHT - PLAYER_H) < 528 + min (13 / 2 + 1 / 2) 7 \<and>
   p_y (Player_update (Some (1 / 2)) False (Player_init\<lparr>p_y := 528, p_vel := 13 / 2\<rparr>)) = 530 \<and>
   \<not> p_alive (Player_update (Some (1 / 2)) False (Player_init\<lparr>p_y := 528, p_vel := 13 / 2\<rparr>)) \<and>
   (\<exists>g'. Game_update (0, 0) quiet_draws
            (fresh_round\<lparr>g_grace_frames := 0,
                          g_player := (g_player fresh_round)\<lparr>p_y := 528, p_vel := 13 / 2\<rparr>\<rparr>) = Inr g' \<and>
          g_state g' = GAME_OVER \<and> \<not> p_alive (g_player g') \<and> p_y (g_player g') = 530 \<and>
          (\<exists>g''. Game_update (0, 0) quiet_draws g' = Inr g'' \<and> g_player g'' = g_player g'))"
proof -
  let ?p = "Player_init\<lparr>p_y := 528, p_vel := 13 / 2\<rparr>"
  let ?g = "fresh_round\<lparr>g_grace_frames := 0,
                         g_player := (g_player fresh_round)\<lparr>p_y := 528, p_vel := 13 / 2\<rparr>\<rparr>"
  from floor_frame obtain g' where g': "Game_update (0, 0) quiet_draws ?g = Inr g'" by blast
  have frame: "g_state g' = GAME_OVER \<and> \<not> p_alive (g_player g') \<and> p_y (g_player g') = 530"
    using C3_player_stays_on_screen[where g = ?g and g' = g' and mouse_pos = "(0, 0)"
        and d = quiet_draws and i = 0 and lv = empty_level] g'
    by (simp add: eval_defs)
  then obtain g'' where g'': "Game_update (0, 0) quiet_draws g' = Inr g''"
    by (auto simp: Game_update_def)
  have "g_player g'' = g_player g'"
    using C3_player_stays_on_screen[where g = g' and g' = g'' and mouse_pos = "(0, 0)"
        and d = quiet_draws] frame g''
    by simp
  moreover have "p_y (Player_update (Some (1 / 2)) False ?p) = 530 \<and>
      \<not> p_alive (Player_update (Some (1 / 2)) False ?p)"
    using C3_player_stays_on_screen[where p = ?p and gravity = "Some (1 / 2)" and grace = False]
    by (simp add: Player_init_def sizes)
  ultimately show ?thesis using g' g'' frame by (auto simp: sizes)
qed

section \<open>Scoring\<close>

text \<open>
  Claim C4. In the loop body, a wall pair raises the score by exactly 1 when it is not yet
  scored and its trailing edge, after this frame's move, is left of the player's x; otherwise
  by 0; and it is scored afterwards exactly when it was scored before or has just passed.
  Once scored it stays scored, and over any number of frames one wall pair contributes 1 in
  total if it went from unscored to scored and 0 otherwise. Within a frame the wall loop adds
  the increments of the walls it reaches (all of them unless a collision ends the loop), and
  a \<open>PLAYING\<close> frame that stays in \<open>PLAYING\<close> adds the increments of all walls, the one spawned
  in this frame included.
\<close>

theorem C4_score_once:
  "snd (wall_pass px w) =
     (if \<not> w_scored w \<and> w_x w - w_speed w + real_of_int WALL_WIDTH < real_of_int px
      then 1 else 0) \<and>
   (w_scored (fst (wall_pass px w)) \<longleftrightarrow>
      w_scored w \<or> w_x w - w_speed w + real_of_int WALL_WIDTH < real_of_int px) \<and>
   (w_scored w \<longrightarrow> w_scored (frames px n w) \<and> snd (wall_pass px (frames px n w)) = 0) \<and>
   (\<Sum>k<n. snd (wall_pass px (frames px k w))) =
     (if \<not> w_scored w \<and> w_scored (frames px n w) then 1 else 0) \<and>
   fst (snd (walls_loop ws p sc)) =
     sc + (\<Sum>w\<leftarrow>take (Suc (length (takeWhile
              (\<lambda>w. \<not> WallPair_collides (WallPair_update w) (Player_rect p)) ws))) ws.
            snd (wall_pass (p_x p) w)) \<and>
   (g_state g = PLAYING \<and> Game_update mouse_pos d g = Inr g' \<and> g_state g' = PLAYING \<longrightarrow>
      (\<exists>ws. (ws = g_walls g \<or> (\<exists>w. ws = g_walls g @ [w])) \<and>
         g_score g' = g_score g + (\<Sum>w\<leftarrow>ws. snd (wall_pass (p_x (g_player g)) w)) \<and>
         g_walls g' = filter (\<lambda>w. \<not> WallPair_off_screen w)
                        (map (\<lambda>w. fst (wall_pass (p_x (g_player g)) w)) ws)))"
proof -
  have stays: "w_scored (frames px n w) \<and> snd (wall_pass px (frames px n w)) = 0"
    if "w_scored w"
    using scored_stays[OF that, where px = px and n = n] by (simp add: wall_pass_inc)
  have frame: "\<exists>ws. (ws = g_walls g \<or> (\<exists>w. ws = g_walls g @ [w])) \<and>
         g_score g' = g_score g + (\<Sum>w\<leftarrow>ws. snd (wall_pass (p_x (g_player g)) w)) \<and>
         g_walls g' = filter (\<lambda>w. \<not> WallPair_off_screen w)
                        (map (\<lambda>w. fst (wall_pass (p_x (g_player g)) w)) ws)"
    if "g_state g = PLAYING" "Game_update mouse_pos d g = Inr g'" "g_state g' = PLAYING"
  proof -
    from that(1,2) have "update_playing d g = Inr g'" by (simp add: Game_update_def)
    moreover from that(3) have "g_state g' \<noteq> GAME_OVER" by simp
    ultimately obtain i lv ws es t cs where
      ws: "ws = g_walls g \<or> (\<exists>w. ws = g_walls g @ [w])"
      and g': "g' = (player_physics lv (g\<lparr>g_level_idx := i\<rparr>))
          \<lparr>g_bg_x := scroll (g_bg_x g) (get (lv_wall_speed lv) 2 * (25 / 100)),
            g_walls := filter (\<lambda>w. \<not> WallPair_off_screen w)
                         (map (\<lambda>w. fst (wall_pass (p_x (g_player g)) w)) ws),
            g_score := g_score g + (\<Sum>w\<leftarrow>ws. snd (wall_pass (p_x (g_player g)) w)),
            g_enemy_timer := t, g_enemies := es,
            g_coins := filter (\<lambda>c. \<not> Coin_collides c (Player_rect (g_player g')) \<and> \<not> Coin_off_screen c)
                         (map Coin_update cs),
            g_coins_collected := g_coins_collected g + get (lv_coin_value lv) 1 *
               int (length (filter (\<lambda>c. Coin_collides c (Player_rect (g_player g'))) (map Coin_update cs)))\<rparr>"
      by (rule update_playing_survives)
    have "g_score g' = g_score g + (\<Sum>w\<leftarrow>ws. snd (wall_pass (p_x (g_player g)) w))"
      by (subst g') simp
    moreover have "g_walls g' = filter (\<lambda>w. \<not> WallPair_off_screen w)
                        (map (\<lambda>w. fst (wall_pass (p_x (g_player g)) w)) ws)"
      by (subst g') simp
    ultimately show ?thesis using ws by blast
  qed
  show ?thesis
    using wall_pass_inc[of px w] wall_pass_scored[of px w] stays score_total[where px = px and n = n and w = w]
      walls_loop_score[of ws p sc] frame
    by blast
qed

theorem C4_score_once_witness:
  "g_state (fresh_round\<lparr>g_walls := [sample_wall 79]\<rparr>) = PLAYING \<and>
   (\<exists>g'. Game_update (0, 0) quiet_draws (fresh_round\<lparr>g_walls := [sample_wall 79]\<rparr>) = Inr g' \<and>
          g_state g' = PLAYING \<and> g_score g' = 1 \<and> w_scored (hd (g_walls g')) \<and>
          snd (wall_pass PLAYER_X (hd (g_walls g'))) = 0)"
proof -
  let ?g = "fresh_round\<lparr>g_walls := [sample_wall 79]\<rparr>"
  from pass_frame obtain g' where g': "Game_update (0, 0) quiet_draws ?g = Inr g'"
    "g_state g' = PLAYING" "g_score g' = 1" "w_scored (hd (g_walls g'))" by blast
  have "g_state ?g = PLAYING" by (simp add: eval_defs)
  moreover have "snd (wall_pass PLAYER_X (hd (g_walls g'))) = 0"
    using C4_score_once[where w = "hd (g_walls g')" and px = PLAYER_X and n = 0] g'(4)
    by simp
  ultimately show ?thesis using g' by blast
qed

section \<open>Restart\<close>

text \<open>
  Claim C6. Whenever an event takes the game from \<open>START\<close> or \<open>GAME_OVER\<close> to \<open>PLAYING\<close>, the
  state after that event is the one \<open>_start_game\<close> builds: score 0, coins collected 0, no
  walls, enemies or coins, 50 grace frames (so the grace period is active), the enemy timer
  0, the level index 0, and the player alive with zero velocity at its initial height 265;
  its x-position, which nothing ever changes, is kept.
\<close>

theorem C6_restart_resets:
  assumes "g_state g \<noteq> PLAYING" and "handle_event ev g = Inr g'" and "g_state g' = PLAYING"
  shows "g' = Game_start_game g \<and>
         g_score g' = 0 \<and> g_coins_collected g' = 0 \<and>
         g_walls g' = [] \<and> g_enemies g' = [] \<and> g_coins g' = [] \<and>
         g_grace_frames g' = 50 \<and> 0 < g_grace_frames g' \<and>
         g_enemy_timer g' = 0 \<and> g_level_idx g' = 0 \<and>
         p_alive (g_player g') \<and> p_vel (g_player g') = 0 \<and>
         p_y (g_player g') = p_y Player_init \<and> p_y (g_player g') = 265 \<and>
         p_x (g_player g') = p_x (g_player g)"
proof -
  have "g' = Game_start_game g"
    using assms
    by (cases "g_state g"; cases ev)
       (auto simp: handle_event_def Let_def Game_start_game_def split: if_splits)
  then show ?thesis
    by (simp add: Game_start_game_def Player_reset_def Player_init_def sizes)
qed

theorem C6_restart_resets_witness:
  "Game_init [empty_level] no_file = Inr start_screen \<and>
   g_state start_screen \<noteq> PLAYING \<and>
   handle_event (MOUSEBUTTONDOWN 1 (400, 410)) start_screen = Inr fresh_round \<and>
   g_state fresh_round = PLAYING \<and> g_score fresh_round = 0 \<and> g_grace_frames fresh_round = 50 \<and>
   g_state (fresh_round\<lparr>g_state := GAME_OVER, g_score := 3\<rparr>) \<noteq> PLAYING \<and>
   handle_event (KEYDOWN K_SPACE) (fresh_round\<lparr>g_state := GAME_OVER, g_score := 3\<rparr>)
     = Inr fresh_round"
proof -
  have click: "handle_event (MOUSEBUTTONDOWN 1 (400, 410)) start_screen = Inr fresh_round"
    by (simp add: eval_defs)
  have "g_state fresh_round = PLAYING" by (simp add: eval_defs)
  with click have "g_score fresh_round = 0 \<and> g_grace_frames fresh_round = 50"
    using C6_restart_resets[of start_screen "MOUSEBUTTONDOWN 1 (400, 410)" fresh_round]
    by (simp add: start_screen_def)
  moreover have "handle_event (KEYDOWN K_SPACE) (fresh_round\<lparr>g_state := GAME_OVER, g_score := 3\<rparr>)
      = Inr fresh_round"
    by (simp add: eval_defs)
  moreover have "Game_init [empty_level] no_file = Inr start_screen"
    by (simp add: eval_defs)
  ultimately show ?thesis using click by (simp add: eval_defs)
qed

section \<open>The game-over screen\<close>

text \<open>
  Claim C8. A frame in \<open>GAME_OVER\<close> always returns, and leaves the player, the walls, the
  enemies, the coins, the score, the coin total, the state, the high score, the timers, the
  level index and the high score file as they are. The background position moves by 0.15 to
  the left and wraps around at minus the screen width. Beside it only the hover flag of the
  restart button, which follows the mouse, is written.
\<close>

theorem C8_game_over_frame:
  assumes "g_state g = GAME_OVER"
  shows "\<exists>g'. Game_update mouse_pos d g = Inr g' \<and>
           g' = g\<lparr>g_btn_restart := Button_update mouse_pos (g_btn_restart g),
                  g_bg_x := scroll (g_bg_x g) (15 / 100)\<rparr> \<and>
           g_player g' = g_player g \<and> g_walls g' = g_walls g \<and>
           g_enemies g' = g_enemies g \<and> g_coins g' = g_coins g \<and>
           g_score g' = g_score g \<and> g_coins_collected g' = g_coins_collected g \<and>
           g_state g' = GAME_OVER \<and> g_high_score g' = g_high_score g \<and>
           g_grace_frames g' = g_grace_frames g \<and> g_enemy_timer g' = g_enemy_timer g \<and>
           g_level_idx g' = g_level_idx g \<and> g_disk g' = g_disk g \<and>
           g_bg_x g' = (if g_bg_x g - 15 / 100 \<le> - 800 then g_bg_x g - 15 / 100 + 800
                        else g_bg_x g - 15 / 100)"
  using assms by (simp add: Game_update_def scroll_def Let_def sizes)

theorem C8_game_over_frame_witness:
  "g_state (fresh_round\<lparr>g_state := GAME_OVER, g_walls := [sample_wall 152]\<rparr>) = GAME_OVER \<and>
   Game_update (0, 0) quiet_draws (fresh_round\<lparr>g_state := GAME_OVER, g_walls := [sample_wall 152]\<rparr>)
     = Inr (fresh_round\<lparr>g_state := GAME_OVER, g_walls := [sample_wall 152],
                        g_bg_x := - (15 / 100)\<rparr>)"
  using C8_game_over_frame[of "fresh_round\<lparr>g_state := GAME_OVER, g_walls := [sample_wall 152]\<rparr>"
      "(0, 0)" quiet_draws]
  by (simp add: eval_defs)

section \<open>Coins\<close>

text \<open>
  Claim C9. The coin loop keeps exactly the coins that, once moved, neither touch the
  player's hit-box nor have left the screen, and adds the level's coin value once for each
  coin that touches it; a single touching coin is removed and credited exactly once. The
  loop cannot fail. In every \<open>PLAYING\<close> frame that stays in \<open>PLAYING\<close> the coins of the game
  (with the coin spawned in this frame, if any) are treated this way, with the coin value of
  the level selected at the start of the frame, and no coin that is left touches the player:
  a coin that was picked up is gone and cannot be picked up again.
\<close>

theorem C9_coin_pickup_once:
  "coins_loop cs p v n =
     (filter (\<lambda>c. \<not> Coin_collides c (Player_rect p) \<and> \<not> Coin_off_screen c) (map Coin_update cs),
      n + v * int (length (filter (\<lambda>c. Coin_collides c (Player_rect p)) (map Coin_update cs)))) \<and>
   (Coin_collides (Coin_update c) (Player_rect p) \<longrightarrow> coins_loop [c] p v n = ([], n + v)) \<and>
   (g_state g = PLAYING \<and> Game_update mouse_pos d g = Inr g' \<and> g_state g' = PLAYING \<longrightarrow>
      (\<exists>i lv cs. select_level (g_levels g) (g_score g) = Inr (i, lv) \<and>
         (cs = g_coins g \<or> (\<exists>c. cs = g_coins g @ [c])) \<and>
         g_coins g' =
           filter (\<lambda>c. \<not> Coin_collides c (Player_rect (g_player g')) \<and> \<not> Coin_off_screen c)
             (map Coin_update cs) \<and>
         g_coins_collected g' =
           g_coins_collected g + get (lv_coin_value lv) 1 *
             int (length (filter (\<lambda>c. Coin_collides c (Player_rect (g_player g')))
                            (map Coin_update cs))) \<and>
         (\<forall>c \<in> set (g_coins g'). \<not> Coin_collides c (Player_rect (g_player g')))))"
proof -
  have frame: "\<exists>i lv cs. select_level (g_levels g) (g_score g) = Inr (i, lv) \<and>
         (cs = g_coins g \<or> (\<exists>c. cs = g_coins g @ [c])) \<and>
         g_coins g' =
           filter (\<lambda>c. \<not> Coin_collides c (Player_rect (g_player g')) \<and> \<not> Coin_off_screen c)
             (map Coin_update cs) \<and>
         g_coins_collected g' =
           g_coins_collected g + get (lv_coin_value lv) 1 *
             int (length (filter (\<lambda>c. Coin_collides c (Player_rect (g_player g')))
                            (map Coin_update cs))) \<and>
         (\<forall>c \<in> set (g_coins g'). \<not> Coin_collides c (Player_rect (g_player g')))"
    if "g_state g = PLAYING" "Game_update mouse_pos d g = Inr g'" "g_state g' = PLAYING"
  proof -
    from that(1,2) have "update_playing d g = Inr g'" by (simp add: Game_update_def)
    moreover from that(3) have "g_state g' \<noteq> GAME_OVER" by simp
    ultimately obtain i lv ws es t cs where
      sel: "select_level (g_levels g) (g_score g) = Inr (i, lv)"
      and cs: "cs = g_coins g \<or> (\<exists>c. cs = g_coins g @ [c])"
      and g': "g' = (player_physics lv (g\<lparr>g_level_idx := i\<rparr>))
          \<lparr>g_bg_x := scroll (g_bg_x g) (get (lv_wall_speed lv) 2 * (25 / 100)),
            g_walls := filter (\<lambda>w. \<not> WallPair_off_screen w)
                         (map (\<lambda>w. fst (wall_pass (p_x (g_player g)) w)) ws),
            g_score := g_score g + (\<Sum>w\<leftarrow>ws. snd (wall_pass (p_x (g_player g)) w)),
            g_enemy_timer := t, g_enemies := es,
            g_coins := filter (\<lambda>c. \<not> Coin_collides c (Player_rect (g_player g')) \<and> \<not> Coin_off_screen c)
                         (map Coin_update cs),
            g_coins_collected := g_coins_collected g + get (lv_coin_value lv) 1 *
               int (length (filter (\<lambda>c. Coin_collides c (Player_rect (g_player g'))) (map Coin_update cs)))\<rparr>"
      by (rule update_playing_survives)
    have coins: "g_coins g' =
           filter (\<lambda>c. \<not> Coin_collides c (Player_rect (g_player g')) \<and> \<not> Coin_off_screen c)
             (map Coin_update cs)"
      by (subst g') simp
    have total: "g_coins_collected g' =
           g_coins_collected g + get (lv_coin_value lv) 1 *
             int (length (filter (\<lambda>c. Coin_collides c (Player_rect (g_player g')))
                            (map Coin_update cs)))"
      by (subst g') (simp add: player_physics_shape)
    have "\<forall>c \<in> set (g_coins g'). \<not> Coin_collides c (Player_rect (g_player g'))"
      by (subst coins) simp
    with sel cs coins total show ?thesis by blast
  qed
  have single: "coins_loop [c] p v n = ([], n + v)"
    if "Coin_collides (Coin_update c) (Player_rect p)"
    using that by (simp add: Let_def)
  show ?thesis
    using coins_loop_eq[of cs p v n] single frame by blast
qed

theorem C9_coin_pickup_once_witness:
  "g_state (fresh_round\<lparr>g_coins := [\<lparr> c_x = 172, c_base_y = 280, c_y = 280, c_speed = 2,
                                       c_bob_t = pi - 2 / 25 \<rparr>]\<rparr>) = PLAYING \<and>
   Coin_collides (Coin_update \<lparr> c_x = 172, c_base_y = 280, c_y = 280, c_speed = 2,
                                c_bob_t = pi - 2 / 25 \<rparr>) (Player_rect (g_player fresh_round)) \<and>
   coins_loop [\<lparr> c_x = 172, c_base_y = 280, c_y = 280, c_speed = 2, c_bob_t = pi - 2 / 25 \<rparr>]
     (g_player fresh_round) 1 0 = ([], 1) \<and>
   (\<exists>g'. Game_update (0, 0) quiet_draws
            (fresh_round\<lparr>g_coins := [\<lparr> c_x = 172, c_base_y = 280, c_y = 280, c_speed = 2,
                                        c_bob_t = pi - 2 / 25 \<rparr>]\<rparr>) = Inr g' \<and>
          g_state g' = PLAYING \<and> g_coins g' = [] \<and> g_coins_collected g' = 1)"
proof -
  let ?c = "\<lparr> c_x = 172, c_base_y = 280, c_y = 280, c_speed = 2, c_bob_t = pi - 2 / 25 \<rparr>"
  have hit: "Coin_collides (Coin_update ?c) (Player_rect (g_player fresh_round))"
    by (simp add: eval_defs)
  then have "coins_loop [?c] (g_player fresh_round) 1 0 = ([], 1)"
    using C9_coin_pickup_once[where c = ?c and p = "g_player fresh_round" and v = 1 and n = 0]
    by simp
  moreover have "g_state (fresh_round\<lparr>g_coins := [?c]\<rparr>) = PLAYING" by (simp add: eval_defs)
  ultimately show ?thesis using hit coin_frame by simp
qed

section \<open>Flapping during the grace period\<close>

text \<open>
  Claim C10. A flap (the space key or the left mouse button) handled in \<open>PLAYING\<close> while grace
  frames remain sets the remaining grace frames to 0 and flaps the player. The next frame
  update then runs the physics step with gravity: the velocity becomes the flapped velocity
  plus the level's gravity, capped at the maximum fall speed (and zeroed at the ceiling), and
  the grace counter stays 0.
\<close>

theorem C10_flap_cancels_grace:
  assumes "g_state g = PLAYING" and "0 < g_grace_frames g"
    and "ev = KEYDOWN K_SPACE \<or> ev = MOUSEBUTTONDOWN 1 pos"
  shows "\<exists>g1. handle_event ev g = Inr g1 \<and> g_state g1 = PLAYING \<and>
           g_grace_frames g1 = 0 \<and> g_player g1 = Player_flap (g_player g) \<and>
           (\<forall>mouse_pos d g2. Game_update mouse_pos d g1 = Inr g2 \<longrightarrow>
              (\<exists>i lv. select_level (g_levels g) (g_score g) = Inr (i, lv) \<and>
                 g_grace_frames g2 = 0 \<and>
                 p_y (g_player g2) =
                   p_y (Player_update (Some (get (lv_gravity lv) (3 / 10))) False
                          (Player_flap (g_player g))) \<and>
                 p_vel (g_player g2) =
                   (let v = min (p_vel (Player_flap (g_player g)) + get (lv_gravity lv) (3 / 10))
                                (p_max_fall (g_player g))
                    in if p_y (g_player g) + v < 0 then 0 else v)))"
proof -
  define g1 where "g1 = g\<lparr>g_player := Player_flap (g_player g), g_grace_frames := 0\<rparr>"
  have ev: "handle_event ev g = Inr g1"
    using assms by (auto simp: handle_event_def Let_def g1_def)
  have next_frame: "\<exists>i lv. select_level (g_levels g) (g_score g) = Inr (i, lv) \<and>
                 g_grace_frames g2 = 0 \<and>
                 p_y (g_player g2) =
                   p_y (Player_update (Some (get (lv_gravity lv) (3 / 10))) False
                          (Player_flap (g_player g))) \<and>
                 p_vel (g_player g2) =
                   (let v = min (p_vel (Player_flap (g_player g)) + get (lv_gravity lv) (3 / 10))
                                (p_max_fall (g_player g))
                    in if p_y (g_player g) + v < 0 then 0 else v)"
    if "Game_update mouse_pos d g1 = Inr g2" for mouse_pos d g2
  proof -
    from that assms(1) have "update_playing d g1 = Inr g2"
      by (simp add: Game_update_def g1_def)
    from update_playing_frame[OF this] obtain i lv where
      sel: "select_level (g_levels g) (g_score g) = Inr (i, lv)"
      and pl: "g_player g2 = Player_update (Some (get (lv_gravity lv) (3 / 10))) False (Player_flap (g_player g))
             \<or> g_player g2 = (Player_update (Some (get (lv_gravity lv) (3 / 10))) False (Player_flap (g_player g)))\<lparr>p_alive := False\<rparr>"
      and gf: "g_grace_frames g2 = 0"
      by (auto simp: g1_def Let_def)
    have flap: "p_max_fall (Player_flap (g_player g)) = p_max_fall (g_player g)"
      "p_y (Player_flap (g_player g)) = p_y (g_player g)"
      by (simp_all add: Player_flap_def)
    from pl have "p_y (g_player g2) = p_y (Player_update (Some (get (lv_gravity lv) (3 / 10))) False (Player_flap (g_player g)))"
      and "p_vel (g_player g2) = p_vel (Player_update (Some (get (lv_gravity lv) (3 / 10))) False (Player_flap (g_player g)))"
      by auto
    with sel gf show ?thesis
      by (auto simp: Player_update_vel flap)
  qed
  show ?thesis
    using ev next_frame assms(1) by (intro exI[of _ g1]) (simp add: g1_def)
qed

theorem C10_flap_cancels_grace_witness:
  "g_state fresh_round = PLAYING \<and> 0 < g_grace_frames fresh_round \<and>
   (\<exists>g1. handle_event (KEYDOWN K_SPACE) fresh_round = Inr g1 \<and> g_grace_frames g1 = 0 \<and>
          p_vel (g_player g1) = - 6 \<and>
          (\<exists>g2. Game_update (0, 0) quiet_draws g1 = Inr g2 \<and>
                 p_vel (g_player g2) = - 6 + 3 / 10 \<and> p_y (g_player g2) = 265 - 6 + 3 / 10))"
proof -
  have pre: "g_state fresh_round = PLAYING" "0 < g_grace_frames fresh_round"
    by (simp_all add: eval_defs)
  from C10_flap_cancels_grace[OF pre, of "KEYDOWN K_SPACE"]
  obtain g1 where g1: "handle_event (KEYDOWN K_SPACE) fresh_round = Inr g1"
    "g_grace_frames g1 = 0" "g_player g1 = Player_flap (g_player fresh_round)"
    by blast
  from g1(1) have g1_eq: "g1 = fresh_round\<lparr>g_player := Player_flap (g_player fresh_round),
                                            g_grace_frames := 0\<rparr>"
    by (simp add: handle_event_def Let_def pre K_SPACE_def)
  have "\<exists>g2. Game_update (0, 0) quiet_draws g1 = Inr g2 \<and>
                 p_vel (g_player g2) = - 6 + 3 / 10 \<and> p_y (g_player g2) = 265 - 6 + 3 / 10"
    unfolding g1_eq by (simp add: eval_defs)
  moreover have "p_vel (g_player g1) = - 6"
    by (simp add: g1(3)) (simp add: eval_defs)
  ultimately show ?thesis using pre g1 by blast
qed

section \<open>The persisted best score\<close>

















end
